theory Spec2Isabelle
  imports Complex_Main
begin

section \<open>Values of the host platform\<close>

text \<open>
  The repository holds three revisions of one React component that places a 3D object in
  an immersive-AR view: \<^verbatim>\<open>src/components/ARViewer.tsx\<close> (hooks and refs), a
  second \<^verbatim>\<open>ARViewer\<close> whose scene lives in the local variables of its mount effect,
  and \<^verbatim>\<open>ARShoeApp\<close>, which places a loaded model at a hit-test pose.

  Every function of the source becomes a function on an explicit state. A value that a
  closure captured when it was created is a parameter of the function that models it.
  The outcome of a promise the platform settles is an input. Calls into the rendering
  library and the platform are recorded, in order, in a trace of effects.

  JavaScript numbers are idealised as reals where they are angles and coordinates. The
  one division of the source, the camera's aspect ratio, has its own result type, since
  a division by zero gives \<^verbatim>\<open>Infinity\<close> or \<^verbatim>\<open>NaN\<close> in JavaScript.
\<close>

type_synonym vec3 = "real \<times> real \<times> real"

datatype jsnum = Finite real | PosInfinity | NaN

definition js_div :: "nat \<Rightarrow> nat \<Rightarrow> jsnum" where
  "js_div w h =
     (if h = 0 then (if w = 0 then NaN else PosInfinity) else Finite (real w / real h))"

text \<open>How a promise settles.\<close>

datatype 'a settled = Rejected | Resolved 'a

text \<open>
  \<^verbatim>\<open>navigator.xr\<close>: the property is missing (\<^verbatim>\<open>"xr" in navigator\<close> is false), present
  with the value \<^verbatim>\<open>undefined\<close> (the type declares \<^verbatim>\<open>xr?: XRSystem\<close>), or an XR system.
\<close>

datatype xr_system = XrMissing | XrUndefined | XrPresent

text \<open>The elements the components render over the container.\<close>

datatype ui = UnsupportedBanner | StartButton | PlaceHint

text \<open>A child of a scene: the two lights, a mesh, or controller 0 of a renderer.\<close>

datatype node = DirectionalLight | AmbientLight | MeshNode nat | ControllerNode nat

datatype effect =
    ConsoleError string
  | IsSessionSupported
  | RequestSession
  | SetSession nat "nat option"
  | AppendCanvas nat
  | RemoveCanvas nat
  | DisposeRenderer nat
  | DisposeGeometry nat
  | DisposeMaterial nat
  | SetAnimationLoop nat bool
  | EndSession nat
  | SceneAdd nat node
  | SetPosition nat vec3
  | Render nat nat nat
  | AddResizeListener
  | RemoveResizeListener
  | AddSelectListener nat
  | AddEndListener nat
  | Uncaught string

section \<open>ARViewer.tsx\<close>

subsection \<open>Props, objects and state\<close>

record props =
  modelPath :: "string option"
  objectColor :: "string option"
  objectSize :: "real option"

definition objectColor_or_default :: "props \<Rightarrow> string" where
  "objectColor_or_default p = (case objectColor p of None \<Rightarrow> ''#00ff00'' | Some c \<Rightarrow> c)"

definition objectSize_or_default :: "props \<Rightarrow> real" where
  "objectSize_or_default p = (case objectSize p of None \<Rightarrow> 1 / 10 | Some s \<Rightarrow> s)"

record mesh =
  mesh_position :: vec3
  mesh_rotation :: vec3
  mesh_box :: real
  mesh_color :: string
  geometry_disposed :: bool
  material_disposed :: bool

record camera =
  cam_aspect :: jsnum
  cam_projection_aspect :: jsnum

text \<open>
  Of the rendering library a renderer keeps what the components read and write: among
  them \<open>xr_presenting\<close>, which is true from the moment \<^verbatim>\<open>setSession\<close> has bound a session
  until the session ends. While it is true \<^verbatim>\<open>setSize\<close> returns without resizing (with a
  warning of the library's own, which the trace leaves out).

  A select listener is a \<^verbatim>\<open>handleSelect\<close> closure: its identity (\<^verbatim>\<open>useCallback\<close> returns
  a new function when \<^verbatim>\<open>isObjectPlaced\<close> changed) and the \<^verbatim>\<open>isObjectPlaced\<close> it captured.
  The per-frame callback captured the \<^verbatim>\<open>isObjectPlaced\<close> of the \<^verbatim>\<open>startAnimationLoop\<close>
  that registered it.
\<close>

type_synonym select_closure = "nat \<times> bool"

record renderer =
  r_size :: "nat \<times> nat"
  r_pixel_ratio :: real
  r_disposed :: bool
  r_animation_loop :: "bool option"
  xr_enabled :: bool
  xr_reference_space :: string
  xr_session :: "nat option"
  xr_presenting :: bool
  controller_listeners :: "select_closure list"
  controller_matrix_world :: vec3

text \<open>
  Each run of \<^verbatim>\<open>initializeScene\<close> makes a scene, a camera, a renderer and a mesh; the
  run's number is their address in the four stores. A ref holds an address or null.
  \<open>support_pending\<close> says that the capability query has been made and has not settled;
  \<open>pending_cleanup\<close> is what React keeps of the scene effect's last run until it runs
  its cleanup: the address the cleanup of \<^verbatim>\<open>initializeScene\<close> captured, if that returned one.
\<close>

record ar_state =
  isARSupported :: bool
  isARSessionActive :: bool
  isObjectPlaced :: bool
  containerRef :: bool
  container_children :: "nat list"
  sceneRef :: "nat option"
  cameraRef :: "nat option"
  rendererRef :: "nat option"
  objectRef :: "nat option"
  controllerRef :: "nat option"
  scenes :: "nat \<Rightarrow> node list"
  cameras :: "nat \<Rightarrow> camera"
  renderers :: "nat \<Rightarrow> renderer"
  meshes :: "nat \<Rightarrow> mesh"
  fresh :: nat
  resize_listener :: bool
  end_listeners :: "nat \<Rightarrow> nat"
  support_pending :: bool
  pending_cleanup :: "nat option option"
  trace :: "effect list"

definition emit :: "effect \<Rightarrow> ar_state \<Rightarrow> ar_state" where
  "emit e st = st\<lparr>trace := trace st @ [e]\<rparr>"

definition new_mesh :: "real \<Rightarrow> string \<Rightarrow> mesh" where
  "new_mesh s c =
     \<lparr>mesh_position = (0, 0, 0), mesh_rotation = (0, 0, 0), mesh_box = s, mesh_color = c,
      geometry_disposed = False, material_disposed = False\<rparr>"

definition new_renderer :: renderer where
  "new_renderer =
     \<lparr>r_size = (300, 150), r_pixel_ratio = 1, r_disposed = False, r_animation_loop = None,
      xr_enabled = False, xr_reference_space = ''local-floor'', xr_session = None,
      xr_presenting = False, controller_listeners = [], controller_matrix_world = (0, 0, 0)\<rparr>"

text \<open>\<^verbatim>\<open>WebGLRenderer.setSize\<close>: no resize while the renderer presents a session.\<close>

definition set_size :: "nat \<Rightarrow> nat \<Rightarrow> renderer \<Rightarrow> renderer" where
  "set_size w h rnd = (if xr_presenting rnd then rnd else rnd\<lparr>r_size := (w, h)\<rparr>)"

text \<open>The state of the first render: \<^verbatim>\<open>useState(true)\<close>, \<^verbatim>\<open>useState(false)\<close> twice, every
  ref null but the container's, which React sets before the effects run.\<close>

definition initial_state :: ar_state where
  "initial_state =
     \<lparr>isARSupported = True, isARSessionActive = False, isObjectPlaced = False,
      containerRef = True, container_children = [],
      sceneRef = None, cameraRef = None, rendererRef = None, objectRef = None,
      controllerRef = None,
      scenes = (\<lambda>_. []),
      cameras = (\<lambda>_. \<lparr>cam_aspect = Finite 1, cam_projection_aspect = Finite 1\<rparr>),
      renderers = (\<lambda>_. new_renderer),
      meshes = (\<lambda>_. new_mesh 1 []),
      fresh = 0, resize_listener = False, end_listeners = (\<lambda>_. 0),
      support_pending = False, pending_cleanup = None, trace = []\<rparr>"

subsection \<open>The rendered overlay\<close>

definition ARViewer_render :: "ar_state \<Rightarrow> ui list" where
  "ARViewer_render st =
     (if \<not> isARSupported st then [UnsupportedBanner] else []) @
     (if \<not> isARSessionActive st \<and> isARSupported st then [StartButton] else []) @
     (if isARSessionActive st \<and> \<not> isObjectPlaced st then [PlaceHint] else [])"

subsection \<open>Scene bootstrap\<close>

text \<open>
  \<^verbatim>\<open>initializeScene\<close> with the window's inner width and height and its device pixel
  ratio. It returns the address its cleanup closure captured (renderer, geometry and
  material of that run), or nothing when the container ref is null.
\<close>

definition initializeScene ::
    "props \<Rightarrow> nat \<Rightarrow> nat \<Rightarrow> real \<Rightarrow> ar_state \<Rightarrow> nat option \<times> ar_state" where
  "initializeScene p w h dpr st =
     (if \<not> containerRef st then (None, st)
      else
        let g = fresh st;
            cam = \<lparr>cam_aspect = js_div w h, cam_projection_aspect = js_div w h\<rparr>;
            rnd = (set_size w h new_renderer)\<lparr>r_pixel_ratio := dpr\<rparr>;
            obj = new_mesh (objectSize_or_default p) (objectColor_or_default p)
        in (Some g,
            st\<lparr>container_children := container_children st @ [g],
               scenes := (scenes st)(g := [DirectionalLight, AmbientLight]),
               cameras := (cameras st)(g := cam),
               renderers := (renderers st)(g := rnd),
               meshes := (meshes st)(g := obj),
               sceneRef := Some g, cameraRef := Some g, rendererRef := Some g,
               objectRef := Some g,
               fresh := Suc g,
               trace := trace st @
                 [AppendCanvas g, SceneAdd g DirectionalLight, SceneAdd g AmbientLight]\<rparr>))"

text \<open>
  The closure \<^verbatim>\<open>initializeScene\<close> returns. \<^verbatim>\<open>removeChild\<close> throws when the canvas is not a
  child of the container; \<open>Inl\<close> is the state at the throw.
\<close>

definition initializeScene_cleanup :: "nat \<Rightarrow> ar_state \<Rightarrow> ar_state + ar_state" where
  "initializeScene_cleanup g st =
     (let st1 = st\<lparr>renderers := (renderers st)(g := (renderers st g)\<lparr>r_disposed := True\<rparr>),
                   meshes := (meshes st)(g := (meshes st g)
                     \<lparr>geometry_disposed := True, material_disposed := True\<rparr>),
                   trace := trace st @ [DisposeRenderer g, DisposeGeometry g, DisposeMaterial g]\<rparr>
      in if \<not> containerRef st1 then Inr st1
         else if g \<in> set (container_children st1)
           then Inr (st1\<lparr>container_children := remove1 g (container_children st1),
                         trace := trace st1 @ [RemoveCanvas g]\<rparr>)
           else Inl (emit (Uncaught ''NotFoundError'') st1))"

subsection \<open>Placement\<close>

text \<open>\<^verbatim>\<open>Object3D.add\<close>: the child leaves the parent it had and becomes the last child.\<close>

definition scene_add :: "nat \<Rightarrow> node \<Rightarrow> ar_state \<Rightarrow> ar_state" where
  "scene_add s n st =
     st\<lparr>scenes := (\<lambda>i. filter (\<lambda>x. x \<noteq> n) (scenes st i) @ (if i = s then [n] else [])),
        trace := trace st @ [SceneAdd s n]\<rparr>"

definition set_position :: "nat \<Rightarrow> vec3 \<Rightarrow> ar_state \<Rightarrow> ar_state" where
  "set_position m v st =
     st\<lparr>meshes := (meshes st)(m := (meshes st m)\<lparr>mesh_position := v\<rparr>),
        trace := trace st @ [SetPosition m v]\<rparr>"

text \<open>\<^verbatim>\<open>handleSelect\<close>; \<open>placed\<close> is the \<^verbatim>\<open>isObjectPlaced\<close> the closure captured.\<close>

definition handleSelect :: "bool \<Rightarrow> ar_state \<Rightarrow> ar_state" where
  "handleSelect placed st =
     (case (objectRef st, controllerRef st, sceneRef st) of
        (Some m, Some r, Some s) \<Rightarrow>
          if \<not> placed then
            let st1 = scene_add s (MeshNode m) st;
                st2 = set_position m (controller_matrix_world (renderers st1 r)) st1
            in st2\<lparr>isObjectPlaced := True\<rparr>
          else st
      | _ \<Rightarrow> st)"

text \<open>The platform moves controller 0 of renderer \<open>r\<close>.\<close>

definition controller_moved :: "nat \<Rightarrow> vec3 \<Rightarrow> ar_state \<Rightarrow> ar_state" where
  "controller_moved r v st =
     st\<lparr>renderers := (renderers st)(r := (renderers st r)\<lparr>controller_matrix_world := v\<rparr>)\<rparr>"

text \<open>The controller of renderer \<open>r\<close> dispatches a select event to its listeners.\<close>

definition select_event :: "nat \<Rightarrow> ar_state \<Rightarrow> ar_state" where
  "select_event r st =
     foldl (\<lambda>s c. handleSelect (snd c) s) st (controller_listeners (renderers st r))"

subsection \<open>Session controller\<close>

definition catch_start :: "ar_state \<Rightarrow> ar_state" where
  "catch_start st = (emit (ConsoleError ''Error starting AR session:'') st)\<lparr>isARSessionActive := False\<rparr>"

text \<open>The listener of the session's end event.\<close>

definition onSessionEnd :: "ar_state \<Rightarrow> ar_state" where
  "onSessionEnd st = st\<lparr>isARSessionActive := False, isObjectPlaced := False\<rparr>"

text \<open>
  \<^verbatim>\<open>startARSession\<close>. \<open>hs\<close> is the \<^verbatim>\<open>handleSelect\<close> of the render whose button was
  clicked, \<open>req\<close> how \<^verbatim>\<open>requestSession\<close> settles and \<open>bind\<close> how \<^verbatim>\<open>setSession\<close> settles.
  With no XR system the optional chain gives \<^verbatim>\<open>undefined\<close> without a request, and the
  last statement, \<^verbatim>\<open>session.addEventListener\<close>, throws into the catch block. The
  renderer records the session when \<^verbatim>\<open>setSession\<close> is called, and presents it once
  \<^verbatim>\<open>setSession\<close> has resolved.
\<close>

definition startARSession ::
    "select_closure \<Rightarrow> xr_system \<Rightarrow> nat settled \<Rightarrow> unit settled \<Rightarrow> ar_state \<Rightarrow> ar_state" where
  "startARSession hs nav req bind st =
     (let st0 = (if nav = XrPresent then emit RequestSession st else st);
          outcome = (if nav = XrPresent
                     then (case req of Rejected \<Rightarrow> Rejected | Resolved s \<Rightarrow> Resolved (Some s))
                     else Resolved None)
      in (case outcome of
            Rejected \<Rightarrow> catch_start st0
          | Resolved session \<Rightarrow>
             (case rendererRef st0 of
                None \<Rightarrow> st0
              | Some r \<Rightarrow>
                 (let st1 = st0\<lparr>renderers := (renderers st0)(r := (renderers st0 r)
                                 \<lparr>xr_enabled := True, xr_reference_space := ''local'',
                                  xr_session := session\<rparr>),
                               trace := trace st0 @ [SetSession r session]\<rparr>
                  in (case bind of
                        Rejected \<Rightarrow> catch_start st1
                      | Resolved _ \<Rightarrow>
                         (let ls = controller_listeners (renderers st1 r);
                              st2 = st1\<lparr>renderers := (renderers st1)(r := (renderers st1 r)
                                      \<lparr>xr_presenting := (session \<noteq> None),
                                       controller_listeners := (if hs \<in> set ls then ls else ls @ [hs])\<rparr>),
                                      trace := trace st1 @ [AddSelectListener r]\<rparr>;
                              st3 = (case sceneRef st2 of
                                       None \<Rightarrow> st2
                                     | Some s \<Rightarrow> scene_add s (ControllerNode r) st2);
                              st4 = st3\<lparr>controllerRef := Some r, isARSessionActive := True\<rparr>
                          in (case session of
                                None \<Rightarrow> catch_start st4
                              | Some s \<Rightarrow>
                                 st4\<lparr>end_listeners :=
                                       fun_upd (end_listeners st4) s (Suc (end_listeners st4 s)),
                                     trace := trace st4 @ [AddEndListener s]\<rparr>)))))))"

text \<open>
  The platform ends session \<open>s\<close>: the renderers bound to it drop it and present no
  longer, then each listener the component registered on it runs.
\<close>

definition session_end_event :: "nat \<Rightarrow> ar_state \<Rightarrow> ar_state" where
  "session_end_event s st =
     (let st1 = st\<lparr>renderers := (\<lambda>r. if xr_session (renderers st r) = Some s
                                       then (renderers st r)
                                         \<lparr>xr_session := None, xr_presenting := False\<rparr>
                                       else renderers st r)\<rparr>
      in (onSessionEnd ^^ end_listeners st1 s) st1)"

subsection \<open>Render loop\<close>

definition spin :: "mesh \<Rightarrow> mesh" where
  "spin m = (case mesh_rotation m of (x, y, z) \<Rightarrow> m\<lparr>mesh_rotation := (x + 1 / 100, y + 1 / 100, z)\<rparr>)"

definition set_animation_loop :: "nat \<Rightarrow> bool option \<Rightarrow> ar_state \<Rightarrow> ar_state" where
  "set_animation_loop r cb st =
     st\<lparr>renderers := (renderers st)(r := (renderers st r)\<lparr>r_animation_loop := cb\<rparr>),
        trace := trace st @ [SetAnimationLoop r (cb \<noteq> None)]\<rparr>"

text \<open>The callback \<^verbatim>\<open>startAnimationLoop\<close> registers on renderer \<open>r\<close>, having captured \<open>placed\<close>.\<close>

definition animationCallback :: "bool \<Rightarrow> nat \<Rightarrow> ar_state \<Rightarrow> ar_state" where
  "animationCallback placed r st =
     (let st1 = (case objectRef st of
                   Some m \<Rightarrow> if placed then st\<lparr>meshes := (meshes st)(m := spin (meshes st m))\<rparr> else st
                 | None \<Rightarrow> st)
      in case (sceneRef st1, cameraRef st1) of
           (Some s, Some c) \<Rightarrow> emit (Render r s c) st1
         | _ \<Rightarrow> st1)"

definition startAnimationLoop :: "bool \<Rightarrow> ar_state \<Rightarrow> ar_state" where
  "startAnimationLoop placed st =
     (case rendererRef st of None \<Rightarrow> st | Some r \<Rightarrow> set_animation_loop r (Some placed) st)"

text \<open>A presentation frame of renderer \<open>r\<close>: its registered callback runs, if it has one.\<close>

definition animation_frame :: "nat \<Rightarrow> ar_state \<Rightarrow> ar_state" where
  "animation_frame r st =
     (case r_animation_loop (renderers st r) of
        None \<Rightarrow> st
      | Some placed \<Rightarrow> animationCallback placed r st)"

subsection \<open>Resize\<close>

definition handleResize :: "nat \<Rightarrow> nat \<Rightarrow> ar_state \<Rightarrow> ar_state" where
  "handleResize w h st =
     (if \<not> containerRef st then st
      else case (cameraRef st, rendererRef st) of
             (Some c, Some r) \<Rightarrow>
               st\<lparr>cameras := (cameras st)(c := (cameras st c)
                     \<lparr>cam_aspect := js_div w h, cam_projection_aspect := js_div w h\<rparr>),
                  renderers := (renderers st)(r := set_size w h (renderers st r))\<rparr>
           | _ \<Rightarrow> st)"

subsection \<open>Capability probe\<close>

text \<open>
  The first effect. With the property present but no XR system the optional chain ends
  without a call. The callbacks of the query run once, when it settles.
\<close>

definition supportEffect :: "xr_system \<Rightarrow> ar_state \<Rightarrow> ar_state" where
  "supportEffect nav st =
     (case nav of
        XrMissing \<Rightarrow> st\<lparr>isARSupported := False\<rparr>
      | XrUndefined \<Rightarrow> st
      | XrPresent \<Rightarrow> (emit IsSessionSupported st)\<lparr>support_pending := True\<rparr>)"

definition supportSettled :: "bool settled \<Rightarrow> ar_state \<Rightarrow> ar_state" where
  "supportSettled q st =
     (if \<not> support_pending st then st
      else (case q of
              Resolved supported \<Rightarrow> st\<lparr>isARSupported := supported, support_pending := False\<rparr>
            | Rejected \<Rightarrow> st\<lparr>isARSupported := False, support_pending := False\<rparr>))"

subsection \<open>The scene effect and its cleanup\<close>

definition sceneEffect ::
    "props \<Rightarrow> nat \<Rightarrow> nat \<Rightarrow> real \<Rightarrow> bool \<Rightarrow> ar_state \<Rightarrow> nat option \<times> ar_state" where
  "sceneEffect p w h dpr placed st =
     (case initializeScene p w h dpr st of
        (cleanup, st1) \<Rightarrow>
          (cleanup, (emit AddResizeListener (startAnimationLoop placed st1))\<lparr>resize_listener := True\<rparr>))"

definition sceneEffect_cleanup :: "nat option \<Rightarrow> ar_state \<Rightarrow> ar_state + ar_state" where
  "sceneEffect_cleanup cleanup st =
     (case (case cleanup of None \<Rightarrow> Inr st | Some g \<Rightarrow> initializeScene_cleanup g st) of
        Inl st1 \<Rightarrow> Inl st1
      | Inr st1 \<Rightarrow>
          let st2 = (emit RemoveResizeListener st1)\<lparr>resize_listener := False\<rparr>;
              st3 = (case rendererRef st2 of
                       None \<Rightarrow> st2
                     | Some r \<Rightarrow> set_animation_loop r None st2);
              st4 = (case rendererRef st3 of
                       None \<Rightarrow> st3
                     | Some r \<Rightarrow>
                        (case xr_session (renderers st3 r) of
                           None \<Rightarrow> st3
                         | Some s \<Rightarrow> emit (EndSession s) st3))
          in Inr st4)"

subsection \<open>The component as a function of its events\<close>

text \<open>
  What happens to a mounted component, one event at a time. The scene effect depends on
  \<^verbatim>\<open>initializeScene\<close>, \<^verbatim>\<open>startAnimationLoop\<close> and \<^verbatim>\<open>handleResize\<close>, and
  \<^verbatim>\<open>startAnimationLoop\<close> changes with \<^verbatim>\<open>isObjectPlaced\<close>: React may run the effect's cleanup,
  and the effect again with the \<^verbatim>\<open>isObjectPlaced\<close> of the latest render. When it does so is
  left open: both are events. React runs the cleanup of a run once, and attaches and
  detaches the container ref.
\<close>

datatype event =
    SupportSettled "bool settled"
  | StartClicked select_closure xr_system "nat settled" "unit settled"
  | ControllerMoved nat vec3
  | SelectFired nat
  | SessionEnded nat
  | AnimationFrame nat
  | WindowResized nat nat
  | SceneEffectRun nat nat real
  | SceneEffectCleanup
  | ContainerRefSet bool

definition step :: "props \<Rightarrow> event \<Rightarrow> ar_state \<Rightarrow> ar_state" where
  "step p ev st =
     (case ev of
        SupportSettled q \<Rightarrow> supportSettled q st
      | StartClicked hs nav req bind \<Rightarrow> startARSession hs nav req bind st
      | ControllerMoved r v \<Rightarrow> controller_moved r v st
      | SelectFired r \<Rightarrow> select_event r st
      | SessionEnded s \<Rightarrow> session_end_event s st
      | AnimationFrame r \<Rightarrow> animation_frame r st
      | WindowResized w h \<Rightarrow> (if resize_listener st then handleResize w h st else st)
      | SceneEffectRun w h dpr \<Rightarrow>
         (case sceneEffect p w h dpr (isObjectPlaced st) st of
            (cleanup, st1) \<Rightarrow> st1\<lparr>pending_cleanup := Some cleanup\<rparr>)
      | SceneEffectCleanup \<Rightarrow>
         (case pending_cleanup st of
            None \<Rightarrow> st
          | Some cleanup \<Rightarrow>
             (case sceneEffect_cleanup cleanup st of
                Inl st1 \<Rightarrow> st1\<lparr>pending_cleanup := None\<rparr>
              | Inr st1 \<Rightarrow> st1\<lparr>pending_cleanup := None\<rparr>))
      | ContainerRefSet b \<Rightarrow> st\<lparr>containerRef := b\<rparr>)"

text \<open>Mounting runs the two effects in the order of the source, from the first render's state.\<close>

definition mount :: "props \<Rightarrow> xr_system \<Rightarrow> nat \<Rightarrow> nat \<Rightarrow> real \<Rightarrow> ar_state" where
  "mount p nav w h dpr = step p (SceneEffectRun w h dpr) (supportEffect nav initial_state)"

definition ARViewer ::
    "props \<Rightarrow> xr_system \<Rightarrow> nat \<Rightarrow> nat \<Rightarrow> real \<Rightarrow> event list \<Rightarrow> ar_state" where
  "ARViewer p nav w h dpr evs = foldl (\<lambda>st ev. step p ev st) (mount p nav w h dpr) evs"

section \<open>The second ARViewer: the scene in the mount effect's variables\<close>

text \<open>
  The mount effect of this revision runs once (its dependency list is empty) and keeps
  scene, camera, renderer, cube, \<^verbatim>\<open>controller\<close> and \<^verbatim>\<open>objectPlaced\<close> in local variables
  that its closures share. The renderer of the effect has address 0 in the effects; the
  component-level \<^verbatim>\<open>startARSession\<close>, which the button calls, makes a renderer of its
  own at each call, numbered from 1. \<open>v_xr_presenting\<close> says that the renderer of the
  effect presents a session. \<open>v_controller\<close> says that the variable
  \<^verbatim>\<open>controller\<close> has been assigned; \<open>v_controller_world\<close> is the position of the world
  matrix of the renderer's controller 0.
\<close>

record viewer_state =
  v_isARSupported :: bool
  v_isARSessionActive :: bool
  v_containerRef :: bool
  v_cleanup_returned :: bool
  v_canvas_attached :: bool
  v_scene :: "node list"
  v_cube_position :: vec3
  v_cube_rotation :: vec3
  v_controller :: bool
  v_controller_world :: vec3
  v_select_listener :: bool
  v_objectPlaced :: bool
  v_aspect :: jsnum
  v_projection_aspect :: jsnum
  v_size :: "nat \<times> nat"
  v_pixel_ratio :: real
  v_animation_loop :: bool
  v_xr_enabled :: bool
  v_xr_reference_space :: string
  v_xr_session :: "nat option"
  v_xr_presenting :: bool
  v_resize_listener :: bool
  v_end_listeners :: "nat \<Rightarrow> nat"
  v_fresh :: nat
  v_trace :: "effect list"

definition v_emit :: "effect \<Rightarrow> viewer_state \<Rightarrow> viewer_state" where
  "v_emit e st = st\<lparr>v_trace := v_trace st @ [e]\<rparr>"

definition v_initial_state :: viewer_state where
  "v_initial_state =
     \<lparr>v_isARSupported = True, v_isARSessionActive = False, v_containerRef = True,
      v_cleanup_returned = False, v_canvas_attached = False, v_scene = [], v_cube_position = (0, 0, 0),
      v_cube_rotation = (0, 0, 0), v_controller = False, v_controller_world = (0, 0, 0),
      v_select_listener = False,
      v_objectPlaced = False, v_aspect = Finite 1, v_projection_aspect = Finite 1,
      v_size = (300, 150), v_pixel_ratio = 1, v_animation_loop = False,
      v_xr_enabled = False, v_xr_reference_space = ''local-floor'', v_xr_session = None,
      v_xr_presenting = False, v_resize_listener = False, v_end_listeners = (\<lambda>_. 0), v_fresh = 1, v_trace = []\<rparr>"

definition v_render :: "viewer_state \<Rightarrow> ui list" where
  "v_render st =
     (if \<not> v_isARSupported st then [UnsupportedBanner] else []) @
     (if \<not> v_isARSessionActive st \<and> v_isARSupported st then [StartButton] else []) @
     (if \<not> v_isARSessionActive st then [PlaceHint] else [])"

definition v_catch_start :: "viewer_state \<Rightarrow> viewer_state" where
  "v_catch_start st =
     (v_emit (ConsoleError ''Error starting AR session:'') st)\<lparr>v_isARSessionActive := False\<rparr>"

definition v_onSessionEnd :: "viewer_state \<Rightarrow> viewer_state" where
  "v_onSessionEnd st = st\<lparr>v_isARSessionActive := False\<rparr>"

text \<open>
  \<^verbatim>\<open>(navigator as any).xr.requestSession\<close>: without an XR system the property access
  throws inside the \<^verbatim>\<open>try\<close>, and no request is made.
\<close>

definition v_request :: "xr_system \<Rightarrow> nat settled \<Rightarrow> viewer_state \<Rightarrow> nat settled \<times> viewer_state" where
  "v_request nav req st =
     (if nav = XrPresent then (req, v_emit RequestSession st) else (Rejected, st))"

text \<open>The component-level \<^verbatim>\<open>startARSession\<close>, the button's \<^verbatim>\<open>onClick\<close>.\<close>

definition v_startARSession ::
    "xr_system \<Rightarrow> nat settled \<Rightarrow> unit settled \<Rightarrow> viewer_state \<Rightarrow> viewer_state" where
  "v_startARSession nav req bind st =
     (case v_request nav req st of
        (Rejected, st0) \<Rightarrow> v_catch_start st0
      | (Resolved s, st0) \<Rightarrow>
         (let r = v_fresh st0;
              st1 = st0\<lparr>v_fresh := Suc r, v_trace := v_trace st0 @ [SetSession r (Some s)]\<rparr>
          in (case bind of
                Rejected \<Rightarrow> v_catch_start st1
              | Resolved _ \<Rightarrow>
                 st1\<lparr>v_isARSessionActive := True,
                     v_end_listeners := fun_upd (v_end_listeners st1) s (Suc (v_end_listeners st1 s)),
                     v_trace := v_trace st1 @ [AddEndListener s]\<rparr>)))"

definition v_scene_add :: "node \<Rightarrow> viewer_state \<Rightarrow> viewer_state" where
  "v_scene_add n st =
     st\<lparr>v_scene := filter (\<lambda>x. x \<noteq> n) (v_scene st) @ [n],
        v_trace := v_trace st @ [SceneAdd 0 n]\<rparr>"

text \<open>The \<^verbatim>\<open>startARSession\<close> declared inside the effect, which registers \<^verbatim>\<open>onSelect\<close>.\<close>

definition v_effect_startARSession ::
    "xr_system \<Rightarrow> nat settled \<Rightarrow> unit settled \<Rightarrow> viewer_state \<Rightarrow> viewer_state" where
  "v_effect_startARSession nav req bind st =
     (case v_request nav req st of
        (Rejected, st0) \<Rightarrow> v_catch_start st0
      | (Resolved s, st0) \<Rightarrow>
         (let st1 = st0\<lparr>v_xr_enabled := True, v_xr_reference_space := ''local'',
                       v_xr_session := Some s,
                       v_trace := v_trace st0 @ [SetSession 0 (Some s)]\<rparr>
          in (case bind of
                Rejected \<Rightarrow> v_catch_start st1
              | Resolved _ \<Rightarrow>
                 (let st2 = st1\<lparr>v_xr_presenting := True,
                               v_controller := True, v_select_listener := True,
                               v_trace := v_trace st1 @ [AddSelectListener 0]\<rparr>;
                      st3 = v_scene_add (ControllerNode 0) st2
                  in st3\<lparr>v_isARSessionActive := True,
                         v_end_listeners := fun_upd (v_end_listeners st3) s (Suc (v_end_listeners st3 s)),
                         v_trace := v_trace st3 @ [AddEndListener s]\<rparr>))))"

text \<open>
  \<^verbatim>\<open>onSelect\<close>. With \<^verbatim>\<open>controller\<close> still unassigned, reading \<^verbatim>\<open>controller.matrixWorld\<close>
  throws after the cube was added, and \<^verbatim>\<open>objectPlaced\<close> stays false.
\<close>

definition onSelect :: "viewer_state \<Rightarrow> viewer_state" where
  "onSelect st =
     (if \<not> v_objectPlaced st then
        (let st1 = v_scene_add (MeshNode 0) st
         in if \<not> v_controller st1 then v_emit (Uncaught ''TypeError'') st1
            else st1\<lparr>v_cube_position := v_controller_world st1, v_objectPlaced := True,
                     v_trace := v_trace st1 @ [SetPosition 0 (v_controller_world st1)]\<rparr>)
      else st)"

text \<open>The platform moves the controller; then the controller fires a select event.\<close>

definition v_controller_moved :: "vec3 \<Rightarrow> viewer_state \<Rightarrow> viewer_state" where
  "v_controller_moved world st = st\<lparr>v_controller_world := world\<rparr>"

definition v_select_event :: "viewer_state \<Rightarrow> viewer_state" where
  "v_select_event st = (if v_select_listener st then onSelect st else st)"

definition v_session_end_event :: "nat \<Rightarrow> viewer_state \<Rightarrow> viewer_state" where
  "v_session_end_event s st =
     (let st1 = (if v_xr_session st = Some s
                 then st\<lparr>v_xr_session := None, v_xr_presenting := False\<rparr> else st)
      in (v_onSessionEnd ^^ v_end_listeners st1 s) st1)"

definition v_animationCallback :: "viewer_state \<Rightarrow> viewer_state" where
  "v_animationCallback st =
     (let st1 = (if v_objectPlaced st
                 then (case v_cube_rotation st of
                         (x, y, z) \<Rightarrow> st\<lparr>v_cube_rotation := (x + 1 / 100, y + 1 / 100, z)\<rparr>)
                 else st)
      in v_emit (Render 0 0 0) st1)"

definition v_animation_frame :: "viewer_state \<Rightarrow> viewer_state" where
  "v_animation_frame st = (if v_animation_loop st then v_animationCallback st else st)"

definition v_handleResize :: "nat \<Rightarrow> nat \<Rightarrow> viewer_state \<Rightarrow> viewer_state" where
  "v_handleResize w h st =
     (if v_containerRef st
      then st\<lparr>v_aspect := js_div w h, v_projection_aspect := js_div w h,
              v_size := (if v_xr_presenting st then v_size st else (w, h))\<rparr>
      else st)"

text \<open>The mount effect; \<open>v_cleanup_returned\<close> says that React holds its cleanup, to run it once.\<close>

definition v_effect :: "xr_system \<Rightarrow> nat \<Rightarrow> nat \<Rightarrow> real \<Rightarrow> viewer_state \<Rightarrow> viewer_state" where
  "v_effect nav w h dpr st =
     (if nav = XrMissing then st\<lparr>v_isARSupported := False\<rparr>
      else
        (st\<lparr>v_cleanup_returned := True,
            v_aspect := js_div w h, v_projection_aspect := js_div w h, v_size := (w, h),
            v_pixel_ratio := dpr,
            v_canvas_attached := v_containerRef st,
            v_scene := [DirectionalLight, AmbientLight],
            v_controller := False, v_objectPlaced := False,
            v_animation_loop := True, v_resize_listener := True,
            v_trace := v_trace st @
              (if v_containerRef st then [AppendCanvas 0] else []) @
              [SceneAdd 0 DirectionalLight, SceneAdd 0 AmbientLight,
               SetAnimationLoop 0 True, AddResizeListener]\<rparr>))"

definition v_cleanup :: "viewer_state \<Rightarrow> viewer_state" where
  "v_cleanup st =
     (let st1 = (v_emit RemoveResizeListener st)\<lparr>v_resize_listener := False\<rparr>;
          st2 = (if v_containerRef st1 \<and> v_canvas_attached st1
                 then (v_emit (RemoveCanvas 0) st1)\<lparr>v_canvas_attached := False\<rparr>
                 else st1);
          st3 = (v_emit (SetAnimationLoop 0 False) st2)\<lparr>v_animation_loop := False\<rparr>
      in (case v_xr_session st3 of
            None \<Rightarrow> st3
          | Some s \<Rightarrow> v_emit (EndSession s) st3))"

text \<open>
  The component as a function of its props and events. The button calls the
  component-level \<^verbatim>\<open>startARSession\<close>; nothing calls the one inside the effect.
\<close>

record v_props =
  v_modelPath :: "string option"

datatype v_event =
    VStartClicked xr_system "nat settled" "unit settled"
  | VControllerMoved vec3
  | VSelectFired
  | VSessionEnded nat
  | VAnimationFrame
  | VWindowResized nat nat
  | VCleanup
  | VContainerRefSet bool

definition v_step :: "v_event \<Rightarrow> viewer_state \<Rightarrow> viewer_state" where
  "v_step ev st =
     (case ev of
        VStartClicked nav req bind \<Rightarrow> v_startARSession nav req bind st
      | VControllerMoved world \<Rightarrow> v_controller_moved world st
      | VSelectFired \<Rightarrow> v_select_event st
      | VSessionEnded s \<Rightarrow> v_session_end_event s st
      | VAnimationFrame \<Rightarrow> v_animation_frame st
      | VWindowResized w h \<Rightarrow> (if v_resize_listener st then v_handleResize w h st else st)
      | VCleanup \<Rightarrow>
         (if v_cleanup_returned st then (v_cleanup st)\<lparr>v_cleanup_returned := False\<rparr> else st)
      | VContainerRefSet b \<Rightarrow> st\<lparr>v_containerRef := b\<rparr>)"

definition v_ARViewer ::
    "v_props \<Rightarrow> xr_system \<Rightarrow> nat \<Rightarrow> nat \<Rightarrow> real \<Rightarrow> v_event list \<Rightarrow> viewer_state" where
  "v_ARViewer p nav w h dpr evs =
     foldl (\<lambda>st ev. v_step ev st) (v_effect nav w h dpr v_initial_state) evs"

section \<open>ARShoeApp: placement at a hit-test pose\<close>

record shoe_state =
  s_isARSupported :: bool
  s_containerRef :: bool
  s_scene :: "node list"
  s_model_position :: vec3
  s_trace :: "effect list"

definition s_initial_state :: shoe_state where
  "s_initial_state =
     \<lparr>s_isARSupported = False, s_containerRef = True,
      s_scene = [], s_model_position = (0, 0, 0), s_trace = []\<rparr>"

definition s_render :: "shoe_state \<Rightarrow> ui list" where
  "s_render st = (if \<not> s_isARSupported st then [UnsupportedBanner] else [])"

text \<open>
  \<^verbatim>\<open>checkARSupport\<close>, with how the query settles. Without an XR system the awaited value is
  \<^verbatim>\<open>undefined\<close>, and \<^verbatim>\<open>!!supported\<close> is false.
\<close>

definition checkARSupport :: "xr_system \<Rightarrow> bool settled \<Rightarrow> shoe_state \<Rightarrow> shoe_state" where
  "checkARSupport nav q st =
     (case nav of
        XrMissing \<Rightarrow> st
      | XrUndefined \<Rightarrow> st\<lparr>s_isARSupported := False\<rparr>
      | XrPresent \<Rightarrow>
         (let st1 = st\<lparr>s_trace := s_trace st @ [IsSessionSupported]\<rparr>
          in (case q of
                Resolved supported \<Rightarrow> st1\<lparr>s_isARSupported := supported\<rparr>
              | Rejected \<Rightarrow> st1\<lparr>s_trace := s_trace st1 @ [ConsoleError ''AR support check failed'']\<rparr>)))"

text \<open>The probe as the mount effect runs it: not at all when the container ref is null.\<close>

definition s_effect_probe :: "xr_system \<Rightarrow> bool settled \<Rightarrow> shoe_state \<Rightarrow> shoe_state" where
  "s_effect_probe nav q st = (if \<not> s_containerRef st then st else checkARSupport nav q st)"

text \<open>The lights the mount effect adds to its scene.\<close>

definition s_effect_scene :: "shoe_state \<Rightarrow> shoe_state" where
  "s_effect_scene st =
     (if \<not> s_containerRef st then st
      else st\<lparr>s_scene := [AmbientLight, DirectionalLight],
              s_trace := s_trace st @ [SceneAdd 0 AmbientLight, SceneAdd 0 DirectionalLight]\<rparr>)"

text \<open>
  What a select event finds: whether the renderer has a reference space, how
  \<^verbatim>\<open>requestHitTestSource\<close> settles (\<open>Resolved False\<close>: no source, the method is missing or
  gives \<^verbatim>\<open>undefined\<close>), and the frame of the event with the pose of each hit-test result.
\<close>

record select_input =
  referenceSpace :: bool
  hitTestSource :: "bool settled"
  frame_results :: "vec3 option list option"

definition s_select_listener :: "select_input \<Rightarrow> shoe_state \<Rightarrow> shoe_state" where
  "s_select_listener ev st =
     (if \<not> referenceSpace ev then st
      else (case hitTestSource ev of
              Rejected \<Rightarrow> st\<lparr>s_trace := s_trace st @ [Uncaught ''unhandledrejection'']\<rparr>
            | Resolved source \<Rightarrow>
               (case (source, frame_results ev) of
                  (True, Some (Some v # _)) \<Rightarrow>
                    st\<lparr>s_model_position := v,
                       s_scene := filter (\<lambda>x. x \<noteq> MeshNode 0) (s_scene st) @ [MeshNode 0],
                       s_trace := s_trace st @ [SetPosition 0 v, SceneAdd 0 (MeshNode 0)]\<rparr>
                | _ \<Rightarrow> st)))"

section \<open>Vocabulary of the properties\<close>

text \<open>In a trace, \<open>a\<close> comes before the first \<open>b\<close>.\<close>

definition precedes :: "effect \<Rightarrow> effect \<Rightarrow> effect list \<Rightarrow> bool" where
  "precedes a b es = (b \<in> set es \<and> a \<in> set (takeWhile (\<lambda>e. e \<noteq> b) es))"

text \<open>
  No run of the scene effect finds the container ref null: \<open>c\<close> is the ref at the start of
  the events.
\<close>

fun runs_attached :: "bool \<Rightarrow> event list \<Rightarrow> bool" where
  "runs_attached c [] = True"
| "runs_attached c (ContainerRefSet b # evs) = runs_attached b evs"
| "runs_attached c (SceneEffectRun w h dpr # evs) = (c \<and> runs_attached c evs)"
| "runs_attached c (ev # evs) = runs_attached c evs"

text \<open>
  A renderer that was disposed has no per-frame callback, and the cleanup React holds
  belongs to the renderer in the ref, whose canvas is in the container.
\<close>

definition loop_safe :: "ar_state \<Rightarrow> bool" where
  "loop_safe st =
     ((\<forall>r. r_disposed (renderers st r) \<longrightarrow> r_animation_loop (renderers st r) = None) \<and>
      (\<forall>g. pending_cleanup st = Some (Some g) \<longrightarrow>
             rendererRef st = Some g \<and> g \<in> set (container_children st)))"

text \<open>Two states agree on what \<open>loop_safe\<close> reads and on the container ref.\<close>

definition same_surfaces :: "ar_state \<Rightarrow> ar_state \<Rightarrow> bool" where
  "same_surfaces st st' =
     ((\<forall>r. r_disposed (renderers st' r) = r_disposed (renderers st r) \<and>
           r_animation_loop (renderers st' r) = r_animation_loop (renderers st r)) \<and>
      pending_cleanup st' = pending_cleanup st \<and> rendererRef st' = rendererRef st \<and>
      container_children st' = container_children st \<and> containerRef st' = containerRef st)"

text \<open>
  The select events of a session of the second revision: before each, the platform has
  moved the controller to the position given.
\<close>

definition v_selects :: "vec3 list \<Rightarrow> viewer_state \<Rightarrow> viewer_state" where
  "v_selects ws st = foldl (\<lambda>s world. v_select_event (v_controller_moved world s)) st ws"

text \<open>Concrete runs: a mounted component whose session 7 has started.\<close>

definition default_props :: props where
  "default_props = \<lparr>modelPath = None, objectColor = None, objectSize = None\<rparr>"

definition running_session :: ar_state where
  "running_session =
     startARSession (0, False) XrPresent (Resolved 7) (Resolved ())
       (mount default_props XrPresent 800 600 1)"

definition v_running_session :: viewer_state where
  "v_running_session =
     v_effect_startARSession XrPresent (Resolved 7) (Resolved ())
       (v_effect XrPresent 800 600 1 v_initial_state)"

text \<open>
  The controller is moved to \<open>(1, 2, 3)\<close> and fires a select event; in \<open>respun_session\<close>
  React has then run the cleanup of the scene effect and the effect again, as it does
  after the render in which \<^verbatim>\<open>isObjectPlaced\<close>, and with it \<^verbatim>\<open>startAnimationLoop\<close>, changed.
\<close>

definition placed_session :: ar_state where
  "placed_session = select_event 0 (controller_moved 0 (1, 2, 3) running_session)"

definition respun_session :: ar_state where
  "respun_session =
     step default_props (SceneEffectRun 800 600 1)
       (step default_props SceneEffectCleanup placed_session)"

text \<open>A select event of \<^verbatim>\<open>ARShoeApp\<close> whose first hit-test result has a pose at \<open>v\<close>.\<close>

definition hit_at :: "vec3 \<Rightarrow> select_input" where
  "hit_at v = \<lparr>referenceSpace = True, hitTestSource = Resolved True, frame_results = Some [Some v]\<rparr>"

section \<open>Properties\<close>

subsection \<open>The concrete runs\<close>

text \<open>\<^verbatim>\<open>setSize\<close> touches the size of the drawing surface and nothing else.\<close>

lemma set_size_fields [simp]:
  "r_size (set_size w h rnd) = (if xr_presenting rnd then r_size rnd else (w, h))"
  "r_pixel_ratio (set_size w h rnd) = r_pixel_ratio rnd"
  "r_disposed (set_size w h rnd) = r_disposed rnd"
  "r_animation_loop (set_size w h rnd) = r_animation_loop rnd"
  "xr_enabled (set_size w h rnd) = xr_enabled rnd"
  "xr_reference_space (set_size w h rnd) = xr_reference_space rnd"
  "xr_session (set_size w h rnd) = xr_session rnd"
  "xr_presenting (set_size w h rnd) = xr_presenting rnd"
  "controller_listeners (set_size w h rnd) = controller_listeners rnd"
  "controller_matrix_world (set_size w h rnd) = controller_matrix_world rnd"
  by (simp_all add: set_size_def)

lemmas scenario_defs =
  running_session_def default_props_def mount_def step_def sceneEffect_def
  initializeScene_def startAnimationLoop_def set_animation_loop_def emit_def
  supportEffect_def initial_state_def startARSession_def scene_add_def new_renderer_def
  new_mesh_def objectSize_or_default_def objectColor_or_default_def set_size_def

lemmas v_scenario_defs =
  v_running_session_def v_effect_startARSession_def v_effect_def v_initial_state_def
  v_request_def v_scene_add_def v_emit_def

lemma running_session_trace:
  "trace running_session =
     [IsSessionSupported, AppendCanvas 0, SceneAdd 0 DirectionalLight, SceneAdd 0 AmbientLight,
      SetAnimationLoop 0 True, AddResizeListener, RequestSession, SetSession 0 (Some 7),
      AddSelectListener 0, SceneAdd 0 (ControllerNode 0), AddEndListener 7]"
  by (simp add: scenario_defs Let_def)

lemma running_session_refs:
  "pending_cleanup running_session = Some (Some 0) \<and> rendererRef running_session = Some 0 \<and>
   cameraRef running_session = Some 0 \<and> sceneRef running_session = Some 0 \<and>
   objectRef running_session = Some 0 \<and> controllerRef running_session = Some 0 \<and>
   containerRef running_session \<and> container_children running_session = [0] \<and>
   \<not> isObjectPlaced running_session \<and> isARSessionActive running_session \<and>
   end_listeners running_session 7 = 1"
  by (simp add: scenario_defs Let_def)

lemma running_session_renderer:
  "renderers running_session 0 =
     \<lparr>r_size = (800, 600), r_pixel_ratio = 1, r_disposed = False,
      r_animation_loop = Some False, xr_enabled = True, xr_reference_space = ''local'',
      xr_session = Some 7, xr_presenting = True, controller_listeners = [(0, False)],
      controller_matrix_world = (0, 0, 0)\<rparr>"
  by (simp add: scenario_defs Let_def)


lemma running_session_mesh:
  "meshes running_session 0 =
     \<lparr>mesh_position = (0, 0, 0), mesh_rotation = (0, 0, 0), mesh_box = 1 / 10,
      mesh_color = ''#00ff00'', geometry_disposed = False, material_disposed = False\<rparr>"
  by (simp add: scenario_defs Let_def)

lemma placed_session_eq:
  "placed_session =
     running_session
       \<lparr>scenes := (\<lambda>i. filter (\<lambda>x. x \<noteq> MeshNode 0) (scenes running_session i) @
                         (if i = 0 then [MeshNode 0] else [])),
        meshes := (meshes running_session)(0 := (meshes running_session 0)
                    \<lparr>mesh_position := (1, 2, 3)\<rparr>),
        renderers := (renderers running_session)(0 := (renderers running_session 0)
                    \<lparr>controller_matrix_world := (1, 2, 3)\<rparr>),
        isObjectPlaced := True,
        trace := trace running_session @ [SceneAdd 0 (MeshNode 0), SetPosition 0 (1, 2, 3)]\<rparr>"
  using running_session_refs running_session_renderer
  by (simp add: placed_session_def select_event_def controller_moved_def handleSelect_def
      scene_add_def set_position_def Let_def)

lemma running_session_scenes:
  "scenes running_session 0 = [DirectionalLight, AmbientLight, ControllerNode 0] \<and>
   fresh running_session = 1"
  by (simp add: scenario_defs Let_def)

lemma placed_session_cleanup:
  "step default_props SceneEffectCleanup placed_session =
     placed_session
       \<lparr>renderers := (renderers placed_session)(0 := (renderers placed_session 0)
                     \<lparr>r_disposed := True, r_animation_loop := None\<rparr>),
        meshes := (meshes placed_session)(0 := (meshes placed_session 0)
                     \<lparr>geometry_disposed := True, material_disposed := True\<rparr>),
        container_children := [], resize_listener := False, pending_cleanup := None,
        trace := trace placed_session @
          [DisposeRenderer 0, DisposeGeometry 0, DisposeMaterial 0, RemoveCanvas 0,
           RemoveResizeListener, SetAnimationLoop 0 False, EndSession 7]\<rparr>"
  using running_session_refs running_session_renderer
  by (simp add: placed_session_eq step_def sceneEffect_cleanup_def initializeScene_cleanup_def
      set_animation_loop_def emit_def Let_def)

lemma respun_session_facts:
  "isObjectPlaced respun_session \<and>
   objectRef respun_session = Some 1 \<and> sceneRef respun_session = Some 1 \<and>
   cameraRef respun_session = Some 1 \<and> rendererRef respun_session = Some 1 \<and>
   r_animation_loop (renderers respun_session 1) = Some True \<and>
   r_animation_loop (renderers respun_session 0) = None \<and>
   scenes respun_session 0 = [DirectionalLight, AmbientLight, ControllerNode 0, MeshNode 0] \<and>
   scenes respun_session 1 = [DirectionalLight, AmbientLight] \<and>
   mesh_rotation (meshes respun_session 0) = (0, 0, 0) \<and>
   mesh_rotation (meshes respun_session 1) = (0, 0, 0) \<and>
   mesh_position (meshes respun_session 0) = (1, 2, 3)"
  using running_session_refs running_session_renderer running_session_mesh
    running_session_scenes
  unfolding respun_session_def placed_session_cleanup
  by (simp add: placed_session_eq step_def
      sceneEffect_def initializeScene_def startAnimationLoop_def set_animation_loop_def
      emit_def new_renderer_def new_mesh_def Let_def)

text \<open>
  What placing the object sets off in \<^verbatim>\<open>ARViewer.tsx\<close>: the re-run of the scene effect
  disposes the renderer of the session, asks the session to end, and builds a new scene.
\<close>

lemma placing_rebuilds_scene:
  "trace respun_session =
     trace placed_session @
       [DisposeRenderer 0, DisposeGeometry 0, DisposeMaterial 0, RemoveCanvas 0,
        RemoveResizeListener, SetAnimationLoop 0 False, EndSession 7,
        AppendCanvas 1, SceneAdd 1 DirectionalLight, SceneAdd 1 AmbientLight,
        SetAnimationLoop 1 True, AddResizeListener]"
  using running_session_refs running_session_renderer running_session_mesh
    running_session_scenes
  unfolding respun_session_def placed_session_cleanup
  by (simp add: placed_session_eq step_def
      sceneEffect_def initializeScene_def startAnimationLoop_def set_animation_loop_def
      emit_def new_renderer_def new_mesh_def Let_def)

lemma v_running_session_eq:
  "v_running_session =
     v_initial_state
       \<lparr>v_cleanup_returned := True, v_canvas_attached := True,
        v_scene := [DirectionalLight, AmbientLight, ControllerNode 0],
        v_controller := True, v_select_listener := True,
        v_aspect := Finite (4 / 3), v_projection_aspect := Finite (4 / 3),
        v_size := (800, 600), v_animation_loop := True, v_xr_enabled := True,
        v_xr_reference_space := ''local'', v_xr_session := Some 7,
        v_xr_presenting := True, v_resize_listener := True, v_isARSessionActive := True,
        v_end_listeners := (\<lambda>_. 0)(7 := 1),
        v_trace := [AppendCanvas 0, SceneAdd 0 DirectionalLight, SceneAdd 0 AmbientLight,
          SetAnimationLoop 0 True, AddResizeListener, RequestSession, SetSession 0 (Some 7),
          AddSelectListener 0, SceneAdd 0 (ControllerNode 0), AddEndListener 7]\<rparr>"
  by (simp add: v_scenario_defs js_div_def Let_def)

subsection \<open>The overlay and the supported-state\<close>

text \<open>
  Claim C8. Whenever the supported-state is false, the rendered elements hold the
  unsupported banner and do not hold the start button: in \<^verbatim>\<open>ARViewer.tsx\<close>, in the second
  revision, and in \<^verbatim>\<open>ARShoeApp\<close>, whose rendered elements never hold a start button.
\<close>

theorem unsupported_banner_no_button:
  "(\<not> isARSupported st \<longrightarrow>
      UnsupportedBanner \<in> set (ARViewer_render st) \<and> StartButton \<notin> set (ARViewer_render st)) \<and>
   (\<not> v_isARSupported vs \<longrightarrow>
      UnsupportedBanner \<in> set (v_render vs) \<and> StartButton \<notin> set (v_render vs)) \<and>
   (\<not> s_isARSupported ss \<longrightarrow>
      UnsupportedBanner \<in> set (s_render ss) \<and> StartButton \<notin> set (s_render ss))"
  by (simp add: ARViewer_render_def v_render_def s_render_def)

text \<open>
  The three hypotheses hold after a query that resolved to false, after the second
  revision's effect found no \<^verbatim>\<open>xr\<close> property, and after \<^verbatim>\<open>checkARSupport\<close> resolved to false.
\<close>

theorem unsupported_banner_no_button_witness:
  "\<not> isARSupported (supportSettled (Resolved False) (supportEffect XrPresent initial_state)) \<and>
   ARViewer_render (supportSettled (Resolved False) (supportEffect XrPresent initial_state)) =
     [UnsupportedBanner] \<and>
   \<not> v_isARSupported (v_effect XrMissing 800 600 1 v_initial_state) \<and>
   v_render (v_effect XrMissing 800 600 1 v_initial_state) = [UnsupportedBanner, PlaceHint] \<and>
   \<not> s_isARSupported (s_effect_probe XrPresent (Resolved False) s_initial_state) \<and>
   s_render (s_effect_probe XrPresent (Resolved False) s_initial_state) = [UnsupportedBanner]"
  using unsupported_banner_no_button
    [of "supportSettled (Resolved False) (supportEffect XrPresent initial_state)"
        "v_effect XrMissing 800 600 1 v_initial_state"
        "s_effect_probe XrPresent (Resolved False) s_initial_state"]
  by (simp add: supportSettled_def supportEffect_def initial_state_def emit_def
      ARViewer_render_def v_effect_def v_initial_state_def v_render_def
      s_effect_probe_def checkARSupport_def s_initial_state_def s_render_def)

text \<open>
  Claim C10. The supported-state of \<^verbatim>\<open>ARViewer.tsx\<close> and of the second revision starts true.
  The first render shows the start button and no banner; in \<^verbatim>\<open>ARViewer.tsx\<close> so does every
  render after the mount while the query is pending, and a query that then resolves to
  false brings the banner. In the second revision the effect brings the banner only after
  the first render, when the \<^verbatim>\<open>xr\<close> property is missing.
\<close>

theorem start_button_before_probe_settles:
  "ARViewer_render initial_state = [StartButton] \<and>
   ARViewer_render (mount p XrPresent w h dpr) = [StartButton] \<and>
   support_pending (mount p XrPresent w h dpr) \<and>
   ARViewer_render (supportSettled (Resolved False) (mount p XrPresent w h dpr)) =
     [UnsupportedBanner] \<and>
   v_render v_initial_state = [StartButton, PlaceHint] \<and>
   v_render (v_effect XrMissing w h dpr v_initial_state) = [UnsupportedBanner, PlaceHint]"
  by (simp add: ARViewer_render_def initial_state_def mount_def step_def sceneEffect_def
      initializeScene_def startAnimationLoop_def set_animation_loop_def emit_def
      supportEffect_def supportSettled_def Let_def
      v_render_def v_initial_state_def v_effect_def)

subsection \<open>Session start and end\<close>

text \<open>
  Claim C6. When the session request is rejected, \<^verbatim>\<open>startARSession\<close> (of
  \<^verbatim>\<open>ARViewer.tsx\<close>, and both of the second revision) makes the one request, logs the error
  and sets session-active to false; the rest of the state is as it was, and no second
  request is made. Without an XR system the second revision fails before it can make the
  request, with the same log and state, and in \<^verbatim>\<open>ARViewer.tsx\<close> the session does not become
  active. On every path, whatever the platform answers, \<^verbatim>\<open>startARSession\<close> leaves the
  placement state and the supported-state as they were.
\<close>

theorem request_failure_logged:
  "startARSession hs XrPresent Rejected bind st =
     st\<lparr>isARSessionActive := False,
        trace := trace st @ [RequestSession, ConsoleError ''Error starting AR session:'']\<rparr> \<and>
   v_effect_startARSession XrPresent Rejected bind vs =
     vs\<lparr>v_isARSessionActive := False,
        v_trace := v_trace vs @ [RequestSession, ConsoleError ''Error starting AR session:'']\<rparr> \<and>
   v_startARSession XrPresent Rejected bind vs =
     vs\<lparr>v_isARSessionActive := False,
        v_trace := v_trace vs @ [RequestSession, ConsoleError ''Error starting AR session:'']\<rparr> \<and>
   v_effect_startARSession XrUndefined req bind vs =
     vs\<lparr>v_isARSessionActive := False,
        v_trace := v_trace vs @ [ConsoleError ''Error starting AR session:'']\<rparr> \<and>
   v_startARSession XrUndefined req bind vs =
     vs\<lparr>v_isARSessionActive := False,
        v_trace := v_trace vs @ [ConsoleError ''Error starting AR session:'']\<rparr> \<and>
   isARSessionActive (startARSession hs XrUndefined req bind st) =
     (rendererRef st = None \<and> isARSessionActive st) \<and>
   isObjectPlaced (startARSession hs nav req bind st) = isObjectPlaced st \<and>
   isARSupported (startARSession hs nav req bind st) = isARSupported st \<and>
   v_objectPlaced (v_effect_startARSession nav req bind vs) = v_objectPlaced vs \<and>
   v_objectPlaced (v_startARSession nav req bind vs) = v_objectPlaced vs"
  by (simp add: startARSession_def catch_start_def emit_def v_effect_startARSession_def
      v_startARSession_def v_request_def v_catch_start_def v_emit_def scene_add_def
      v_scene_add_def Let_def split: settled.splits option.splits)

lemma startARSession_keeps_placement:
  "isObjectPlaced (startARSession hs nav req bind st) = isObjectPlaced st"
  by (simp add: startARSession_def catch_start_def emit_def scene_add_def Let_def
      split: settled.splits option.splits)

lemma funpow_onSessionEnd:
  "(onSessionEnd ^^ n) st =
     (if 0 < n then st\<lparr>isARSessionActive := False, isObjectPlaced := False\<rparr> else st)"
  by (induction n) (auto simp: onSessionEnd_def)

lemma funpow_v_onSessionEnd:
  "(v_onSessionEnd ^^ n) st = (if 0 < n then st\<lparr>v_isARSessionActive := False\<rparr> else st)"
  by (induction n) (auto simp: v_onSessionEnd_def)

text \<open>
  In the second revision the button calls the component-level \<^verbatim>\<open>startARSession\<close>, which
  registers no select listener: in no run of the component does a select event reach
  \<^verbatim>\<open>onSelect\<close>, and the cube is never placed.
\<close>

lemma v_step_unwired:
  "\<not> v_select_listener st \<and> \<not> v_objectPlaced st \<Longrightarrow>
     \<not> v_select_listener (v_step ev st) \<and> \<not> v_objectPlaced (v_step ev st)"
  by (cases ev)
    (simp_all add: v_step_def v_startARSession_def v_request_def v_catch_start_def v_emit_def
      v_controller_moved_def v_select_event_def v_session_end_event_def funpow_v_onSessionEnd
      v_animation_frame_def v_animationCallback_def v_handleResize_def v_cleanup_def Let_def
      split: settled.splits option.splits prod.splits)

lemma v_onSelect_unreachable:
  "\<not> v_select_listener (v_ARViewer p nav w h dpr evs) \<and>
   \<not> v_objectPlaced (v_ARViewer p nav w h dpr evs)"
proof -
  have "\<not> v_select_listener st \<and> \<not> v_objectPlaced st \<Longrightarrow>
      \<not> v_select_listener (foldl (\<lambda>s e. v_step e s) st evs) \<and>
      \<not> v_objectPlaced (foldl (\<lambda>s e. v_step e s) st evs)" for st
  proof (induction evs arbitrary: st)
    case Nil
    then show ?case by simp
  next
    case (Cons ev evs)
    then show ?case using v_step_unwired [of st ev] by simp
  qed
  then show ?thesis
    by (simp add: v_ARViewer_def v_effect_def v_initial_state_def)
qed

text \<open>
  What the end listeners of the second revision do to the variable \<^verbatim>\<open>objectPlaced\<close>:
  nothing.
\<close>

lemma v_session_end_keeps_objectPlaced:
  "v_objectPlaced (v_session_end_event s vs) = v_objectPlaced vs"
  by (simp add: v_session_end_event_def funpow_v_onSessionEnd Let_def)

text \<open>
  Claim C3. When the platform delivers the end event of a session the component listens
  to, the session is no longer active and the object is not placed, and a session started
  after that starts with the object not placed. In \<^verbatim>\<open>ARViewer.tsx\<close> the end listener resets
  both, in every state. In the second revision the end listener resets session-active, and
  \<^verbatim>\<open>objectPlaced\<close> is false at the end event of every run of the component and at the
  start of the session the next click on the button asks for.
\<close>

theorem session_end_clears_placement:
  "(0 < end_listeners st s \<longrightarrow>
      \<not> isARSessionActive (session_end_event s st) \<and>
      \<not> isObjectPlaced (session_end_event s st) \<and>
      \<not> isObjectPlaced (startARSession hs nav req bind (session_end_event s st))) \<and>
   (0 < v_end_listeners (v_ARViewer p vnav w h dpr evs) s \<longrightarrow>
      \<not> v_isARSessionActive (v_step (VSessionEnded s) (v_ARViewer p vnav w h dpr evs)) \<and>
      \<not> v_objectPlaced (v_step (VSessionEnded s) (v_ARViewer p vnav w h dpr evs)) \<and>
      \<not> v_objectPlaced
          (v_step (VStartClicked vnav' vreq vbind)
            (v_step (VSessionEnded s) (v_ARViewer p vnav w h dpr evs))))"
proof -
  have a: "0 < end_listeners st s \<longrightarrow>
      \<not> isARSessionActive (session_end_event s st) \<and>
      \<not> isObjectPlaced (session_end_event s st) \<and>
      \<not> isObjectPlaced (startARSession hs nav req bind (session_end_event s st))"
    by (simp add: session_end_event_def funpow_onSessionEnd startARSession_keeps_placement
        Let_def)
  have b: "0 < v_end_listeners vs s \<longrightarrow>
      \<not> v_isARSessionActive (v_step (VSessionEnded s) vs)" for vs
    by (simp add: v_step_def v_session_end_event_def funpow_v_onSessionEnd Let_def)
  have c: "\<not> v_select_listener (v_step (VSessionEnded s) (v_ARViewer p vnav w h dpr evs)) \<and>
      \<not> v_objectPlaced (v_step (VSessionEnded s) (v_ARViewer p vnav w h dpr evs))"
    using v_onSelect_unreachable [of p vnav w h dpr evs]
      v_step_unwired [of "v_ARViewer p vnav w h dpr evs" "VSessionEnded s"]
    by blast
  have d: "\<not> v_objectPlaced
      (v_step (VStartClicked vnav' vreq vbind)
        (v_step (VSessionEnded s) (v_ARViewer p vnav w h dpr evs)))"
    using c v_step_unwired [of "v_step (VSessionEnded s) (v_ARViewer p vnav w h dpr evs)"
        "VStartClicked vnav' vreq vbind"]
    by blast
  show ?thesis
    using a b [of "v_ARViewer p vnav w h dpr evs"] c d by blast
qed

text \<open>
  Session 7 of \<^verbatim>\<open>ARViewer.tsx\<close> with the object placed, and the run of the second revision
  in which the button was clicked and session 7 granted: both are active before the end
  event and inactive after it.
\<close>

theorem session_end_clears_placement_witness:
  "0 < end_listeners placed_session 7 \<and> isObjectPlaced placed_session \<and>
   isARSessionActive placed_session \<and>
   \<not> isARSessionActive (session_end_event 7 placed_session) \<and>
   \<not> isObjectPlaced (session_end_event 7 placed_session) \<and>
   \<not> isObjectPlaced
       (startARSession (0, False) XrPresent (Resolved 8) (Resolved ())
         (session_end_event 7 placed_session)) \<and>
   0 < v_end_listeners
         (v_ARViewer \<lparr>v_modelPath = None\<rparr> XrPresent 800 600 1
           [VStartClicked XrPresent (Resolved 7) (Resolved ())]) 7 \<and>
   v_isARSessionActive
     (v_ARViewer \<lparr>v_modelPath = None\<rparr> XrPresent 800 600 1
       [VStartClicked XrPresent (Resolved 7) (Resolved ())]) \<and>
   \<not> v_isARSessionActive
       (v_step (VSessionEnded 7)
         (v_ARViewer \<lparr>v_modelPath = None\<rparr> XrPresent 800 600 1
           [VStartClicked XrPresent (Resolved 7) (Resolved ())])) \<and>
   \<not> v_objectPlaced
       (v_step (VStartClicked XrPresent (Resolved 8) (Resolved ()))
         (v_step (VSessionEnded 7)
           (v_ARViewer \<lparr>v_modelPath = None\<rparr> XrPresent 800 600 1
             [VStartClicked XrPresent (Resolved 7) (Resolved ())])))"
proof -
  have h: "0 < end_listeners placed_session 7 \<and> isObjectPlaced placed_session \<and>
      isARSessionActive placed_session"
    using running_session_refs
    by (simp add: placed_session_eq)
  have k: "0 < v_end_listeners
         (v_ARViewer \<lparr>v_modelPath = None\<rparr> XrPresent 800 600 1
           [VStartClicked XrPresent (Resolved 7) (Resolved ())]) 7 \<and>
      v_isARSessionActive
        (v_ARViewer \<lparr>v_modelPath = None\<rparr> XrPresent 800 600 1
          [VStartClicked XrPresent (Resolved 7) (Resolved ())])"
    by (simp add: v_ARViewer_def v_step_def v_startARSession_def v_request_def v_emit_def
        v_effect_def v_initial_state_def Let_def)
  show ?thesis
    using h k
      session_end_clears_placement [of placed_session 7 "(0, False)" XrPresent "Resolved 8"
        "Resolved ()" "\<lparr>v_modelPath = None\<rparr>" XrPresent 800 600 1
        "[VStartClicked XrPresent (Resolved 7) (Resolved ())]" XrPresent "Resolved 8"
        "Resolved ()"]
    by blast
qed

subsection \<open>Resize\<close>



subsection \<open>The render loop\<close>

text \<open>
  What one call of the per-frame callback does. In \<^verbatim>\<open>ARViewer.tsx\<close> the callback that
  captured \<open>placed\<close> leaves every object alone when \<open>placed\<close> is false, and otherwise adds
  0.01 to the x and y rotation of the object in \<^verbatim>\<open>objectRef\<close>; \<^verbatim>\<open>startAnimationLoop\<close>
  registers it with the \<^verbatim>\<open>isObjectPlaced\<close> of its render. In the second revision the
  callback reads the variable \<^verbatim>\<open>objectPlaced\<close> itself and turns the one cube.
\<close>

lemma frame_callback_rotation:
  "(r_animation_loop (renderers st r) = Some placed \<longrightarrow>
      animation_frame r st = animationCallback placed r st) \<and>
   (rendererRef st = Some r \<longrightarrow>
      r_animation_loop (renderers (startAnimationLoop (isObjectPlaced st) st) r) =
        Some (isObjectPlaced st)) \<and>
   (\<not> placed \<longrightarrow> meshes (animationCallback placed r st) = meshes st) \<and>
   (placed \<and> objectRef st = Some m \<longrightarrow>
      mesh_rotation (meshes (animationCallback placed r st) m) =
        (fst (mesh_rotation (meshes st m)) + 1 / 100,
         fst (snd (mesh_rotation (meshes st m))) + 1 / 100,
         snd (snd (mesh_rotation (meshes st m)))) \<and>
      fst (mesh_rotation (meshes st m)) <
        fst (mesh_rotation (meshes (animationCallback placed r st) m)) \<and>
      fst (snd (mesh_rotation (meshes st m))) <
        fst (snd (mesh_rotation (meshes (animationCallback placed r st) m))) \<and>
      (\<forall>k. k \<noteq> m \<longrightarrow> meshes (animationCallback placed r st) k = meshes st k)) \<and>
   (v_animation_loop vs \<longrightarrow> v_animation_frame vs = v_animationCallback vs) \<and>
   (\<not> v_objectPlaced vs \<longrightarrow> v_cube_rotation (v_animationCallback vs) = v_cube_rotation vs) \<and>
   (v_objectPlaced vs \<longrightarrow>
      v_cube_rotation (v_animationCallback vs) =
        (fst (v_cube_rotation vs) + 1 / 100,
         fst (snd (v_cube_rotation vs)) + 1 / 100,
         snd (snd (v_cube_rotation vs))) \<and>
      fst (v_cube_rotation vs) < fst (v_cube_rotation (v_animationCallback vs)) \<and>
      fst (snd (v_cube_rotation vs)) < fst (snd (v_cube_rotation (v_animationCallback vs))))"
  by (auto simp: animation_frame_def animationCallback_def spin_def emit_def
      startAnimationLoop_def set_animation_loop_def
      v_animation_frame_def v_animationCallback_def v_emit_def Let_def
      split: option.splits prod.splits)

text \<open>
  Claim C4 fails on \<^verbatim>\<open>ARViewer.tsx\<close>. The session runs, the controller fires a select
  event, and the object (mesh 0) is in the scene with the placement state true. The
  callback registered at the mount captured \<^verbatim>\<open>isObjectPlaced = false\<close>: a frame leaves the
  rotation of mesh 0 at zero. Once React has run the scene effect again, the callback of
  renderer 0 is gone, \<^verbatim>\<open>objectRef\<close> holds a new mesh 1 that is in no scene, and a frame of
  the new renderer turns mesh 1: the rotation of mesh 0, the object that was placed,
  stays at zero.
\<close>

theorem placed_mesh_not_spun:
  "isObjectPlaced placed_session \<and> objectRef placed_session = Some 0 \<and>
   MeshNode 0 \<in> set (scenes placed_session 0) \<and>
   mesh_rotation (meshes placed_session 0) = (0, 0, 0) \<and>
   mesh_rotation (meshes (animation_frame 0 placed_session) 0) = (0, 0, 0) \<and>
   isObjectPlaced respun_session \<and> objectRef respun_session = Some 1 \<and>
   MeshNode 0 \<in> set (scenes respun_session 0) \<and>
   MeshNode 1 \<notin> set (scenes respun_session 1) \<and>
   animation_frame 0 respun_session = respun_session \<and>
   mesh_rotation (meshes (animation_frame 1 respun_session) 0) = (0, 0, 0) \<and>
   mesh_rotation (meshes (animation_frame 1 respun_session) 1) = (1 / 100, 1 / 100, 0)"
proof -
  have p: "isObjectPlaced placed_session \<and> objectRef placed_session = Some 0 \<and>
      MeshNode 0 \<in> set (scenes placed_session 0) \<and>
      mesh_rotation (meshes placed_session 0) = (0, 0, 0) \<and>
      r_animation_loop (renderers placed_session 0) = Some False \<and>
      sceneRef placed_session = Some 0 \<and> cameraRef placed_session = Some 0"
    using running_session_refs running_session_renderer running_session_mesh
      running_session_scenes
    by (simp add: placed_session_eq)
  then have f: "mesh_rotation (meshes (animation_frame 0 placed_session) 0) = (0, 0, 0)"
    by (simp add: animation_frame_def animationCallback_def emit_def Let_def)
  show ?thesis
    using p f respun_session_facts
    by (simp add: animation_frame_def animationCallback_def emit_def spin_def Let_def)
qed

subsection \<open>The unused option\<close>

lemma initializeScene_modelPath:
  "initializeScene (p\<lparr>modelPath := a\<rparr>) w h dpr st = initializeScene p w h dpr st"
  by (simp add: initializeScene_def objectSize_or_default_def objectColor_or_default_def)

lemma step_modelPath: "step (p\<lparr>modelPath := a\<rparr>) ev st = step p ev st"
  by (cases ev) (simp_all add: step_def sceneEffect_def initializeScene_modelPath)

lemma ARViewer_modelPath:
  "ARViewer (p\<lparr>modelPath := a\<rparr>) nav w h dpr evs = ARViewer p nav w h dpr evs"
  by (simp add: ARViewer_def mount_def step_modelPath)

text \<open>
  Claim C9. For any two values of \<^verbatim>\<open>modelPath\<close>, absent or a string, and the other props
  alike, the component reaches the same state after the same events on the same platform,
  scene contents included, and renders the same elements: in \<^verbatim>\<open>ARViewer.tsx\<close> and in the
  second revision.
\<close>

theorem modelPath_never_consulted:
  "ARViewer (p\<lparr>modelPath := a\<rparr>) nav w h dpr evs = ARViewer (p\<lparr>modelPath := b\<rparr>) nav w h dpr evs \<and>
   ARViewer_render (ARViewer (p\<lparr>modelPath := a\<rparr>) nav w h dpr evs) =
     ARViewer_render (ARViewer (p\<lparr>modelPath := b\<rparr>) nav w h dpr evs) \<and>
   v_ARViewer (vp\<lparr>v_modelPath := a\<rparr>) nav w h dpr vevs =
     v_ARViewer (vp\<lparr>v_modelPath := b\<rparr>) nav w h dpr vevs \<and>
   v_render (v_ARViewer (vp\<lparr>v_modelPath := a\<rparr>) nav w h dpr vevs) =
     v_render (v_ARViewer (vp\<lparr>v_modelPath := b\<rparr>) nav w h dpr vevs)"
  by (simp add: ARViewer_modelPath v_ARViewer_def)

text \<open>The other two props are consulted: the colour reaches the material of the mesh.\<close>

lemma objectColor_consulted:
  "mesh_color (meshes (mount (p\<lparr>objectColor := Some c\<rparr>) nav w h dpr) 0) = c"
  by (cases nav) (simp_all add: mount_def step_def sceneEffect_def initializeScene_def
      startAnimationLoop_def set_animation_loop_def emit_def supportEffect_def
      initial_state_def new_mesh_def objectColor_or_default_def Let_def)

subsection \<open>The capability probe\<close>

text \<open>
  The probe of \<^verbatim>\<open>ARViewer.tsx\<close> on a platform without the \<^verbatim>\<open>xr\<close> property, and on one with
  an XR system: unsupported at once; or one query, whose resolved value becomes the
  supported-state, and whose rejection makes it false. \<^verbatim>\<open>ARShoeApp\<close> starts unsupported,
  and only a query that resolves to true makes it supported.
\<close>

lemma probe_with_and_without_xr:
  "\<not> isARSupported (supportEffect XrMissing st) \<and>
   \<not> support_pending (supportEffect XrMissing initial_state) \<and>
   support_pending (supportEffect XrPresent st) \<and>
   trace (supportEffect XrPresent st) = trace st @ [IsSessionSupported] \<and>
   isARSupported (supportSettled (Resolved supported) (supportEffect XrPresent st)) = supported \<and>
   \<not> isARSupported (supportSettled Rejected (supportEffect XrPresent st)) \<and>
   \<not> support_pending (supportSettled q (supportEffect XrPresent st)) \<and>
   s_isARSupported (s_effect_probe nav q s_initial_state) = (nav = XrPresent \<and> q = Resolved True)"
proof -
  have "s_isARSupported (s_effect_probe nav q s_initial_state) = (nav = XrPresent \<and> q = Resolved True)"
    by (cases nav; cases q)
      (simp_all add: s_effect_probe_def checkARSupport_def s_initial_state_def Let_def)
  moreover have "\<not> support_pending (supportSettled q (supportEffect XrPresent st))"
    by (cases q) (simp_all add: supportEffect_def supportSettled_def emit_def)
  ultimately show ?thesis
    by (simp add: supportEffect_def supportSettled_def emit_def initial_state_def)
qed

text \<open>Only the settling of the pending query changes the supported-state.\<close>

lemma handleSelect_support:
  "isARSupported (handleSelect c st) = isARSupported st \<and>
   support_pending (handleSelect c st) = support_pending st"
  by (simp add: handleSelect_def scene_add_def set_position_def Let_def split: option.splits)

lemma select_fold_support:
  "isARSupported (foldl (\<lambda>s c. handleSelect (snd c) s) st ls) = isARSupported st \<and>
   support_pending (foldl (\<lambda>s c. handleSelect (snd c) s) st ls) = support_pending st"
  by (induction ls arbitrary: st) (simp_all add: handleSelect_support)

lemma select_event_support:
  "isARSupported (select_event r st) = isARSupported st \<and>
   support_pending (select_event r st) = support_pending st"
  by (simp add: select_event_def select_fold_support)

lemma startARSession_support:
  "isARSupported (startARSession hs nav req bind st) = isARSupported st \<and>
   support_pending (startARSession hs nav req bind st) = support_pending st"
  by (simp add: startARSession_def catch_start_def emit_def scene_add_def Let_def
      split: settled.splits option.splits)

lemma session_end_event_support:
  "isARSupported (session_end_event s st) = isARSupported st \<and>
   support_pending (session_end_event s st) = support_pending st"
  by (simp add: session_end_event_def funpow_onSessionEnd Let_def)

lemma animation_frame_support:
  "isARSupported (animation_frame r st) = isARSupported st \<and>
   support_pending (animation_frame r st) = support_pending st"
  by (simp add: animation_frame_def animationCallback_def emit_def Let_def split: option.splits)

lemma handleResize_support:
  "isARSupported (handleResize w h st) = isARSupported st \<and>
   support_pending (handleResize w h st) = support_pending st"
  by (simp add: handleResize_def split: option.splits)

lemma initializeScene_support:
  "isARSupported (snd (initializeScene p w h dpr st)) = isARSupported st \<and>
   support_pending (snd (initializeScene p w h dpr st)) = support_pending st"
  by (simp add: initializeScene_def Let_def)

lemma startAnimationLoop_support:
  "isARSupported (startAnimationLoop c st) = isARSupported st \<and>
   support_pending (startAnimationLoop c st) = support_pending st"
  by (simp add: startAnimationLoop_def set_animation_loop_def split: option.splits)

lemma sceneEffect_support:
  "isARSupported (snd (sceneEffect p w h dpr c st)) = isARSupported st \<and>
   support_pending (snd (sceneEffect p w h dpr c st)) = support_pending st"
  by (simp add: sceneEffect_def emit_def startAnimationLoop_support initializeScene_support
      split_beta)

lemma cleanup_step_support:
  "isARSupported (step p SceneEffectCleanup st) = isARSupported st \<and>
   support_pending (step p SceneEffectCleanup st) = support_pending st"
  by (simp add: step_def sceneEffect_cleanup_def initializeScene_cleanup_def
      set_animation_loop_def emit_def Let_def split: option.splits sum.splits)

lemma step_support:
  assumes "\<not> support_pending st"
  shows "isARSupported (step p ev st) = isARSupported st \<and> \<not> support_pending (step p ev st)"
proof (cases ev)
  case (SceneEffectRun w h dpr)
  with assms show ?thesis
    by (simp add: step_def sceneEffect_support split_beta)
next
  case SceneEffectCleanup
  with assms show ?thesis
    by (simp add: cleanup_step_support)
qed (use assms in \<open>simp_all add: step_def supportSettled_def startARSession_support
      select_event_support session_end_event_support animation_frame_support
      handleResize_support controller_moved_def\<close>)

lemma events_support:
  "\<not> support_pending st \<Longrightarrow>
     isARSupported (foldl (\<lambda>st ev. step p ev st) st evs) = isARSupported st"
proof (induction evs arbitrary: st)
  case Nil
  then show ?case by simp
next
  case (Cons ev evs)
  then show ?case using step_support [of st p ev] by simp
qed

text \<open>
  Claim C5 fails on \<^verbatim>\<open>ARViewer.tsx\<close> when \<^verbatim>\<open>navigator\<close> has the \<^verbatim>\<open>xr\<close> property and its value is
  \<^verbatim>\<open>undefined\<close>: the capability query cannot be made, and the probe neither marks the
  component unsupported nor makes a query. The state stays the first render's; whatever
  events follow, the component stays supported, and it shows the start button.
  \<^verbatim>\<open>ARShoeApp\<close> is unsupported on the same platform.
\<close>

theorem xr_undefined_stays_supported:
  "supportEffect XrUndefined initial_state = initial_state \<and>
   isARSupported (ARViewer p XrUndefined w h dpr evs) \<and>
   ARViewer_render (mount p XrUndefined w h dpr) = [StartButton] \<and>
   \<not> s_isARSupported (s_effect_probe XrUndefined q s_initial_state)"
proof -
  have m: "\<not> support_pending (mount p XrUndefined w h dpr) \<and>
      isARSupported (mount p XrUndefined w h dpr)"
    by (simp add: mount_def step_def supportEffect_def sceneEffect_support split_beta)
      (simp add: initial_state_def)
  then have "isARSupported (ARViewer p XrUndefined w h dpr evs)"
    using events_support [of "mount p XrUndefined w h dpr" p evs] by (simp add: ARViewer_def)
  moreover have "ARViewer_render (mount p XrUndefined w h dpr) = [StartButton]"
    by (simp add: ARViewer_render_def initial_state_def mount_def step_def sceneEffect_def
      initializeScene_def startAnimationLoop_def set_animation_loop_def emit_def
      supportEffect_def Let_def)
  ultimately show ?thesis
    by (simp add: supportEffect_def s_effect_probe_def checkARSupport_def s_initial_state_def)
qed

subsection \<open>Teardown\<close>

text \<open>
  Events other than the run and the cleanup of the scene effect register no per-frame
  callback and dispose no renderer; the run registers one on a new renderer; the cleanup
  disposes the renderer in the ref and takes its callback away.
\<close>

lemma same_surfaces_safe:
  assumes "same_surfaces st st'" and "loop_safe st" and "runs_attached (containerRef st) evs"
  shows "loop_safe st' \<and> runs_attached (containerRef st') evs"
  using assms by (simp add: same_surfaces_def loop_safe_def)

lemma same_surfaces_refl: "same_surfaces st st"
  by (simp add: same_surfaces_def)

lemma same_surfaces_trans:
  "same_surfaces a b \<Longrightarrow> same_surfaces b c \<Longrightarrow> same_surfaces a c"
  by (simp add: same_surfaces_def)

lemma handleSelect_surfaces: "same_surfaces st (handleSelect c st)"
  by (simp add: same_surfaces_def handleSelect_def scene_add_def set_position_def Let_def
      split: option.splits)

lemma select_fold_surfaces:
  "same_surfaces st (foldl (\<lambda>s c. handleSelect (snd c) s) st ls)"
proof (induction ls arbitrary: st)
  case Nil
  then show ?case by (simp add: same_surfaces_refl)
next
  case (Cons c ls)
  show ?case
    using same_surfaces_trans [OF handleSelect_surfaces [of st "snd c"] Cons.IH] by simp
qed

lemma select_event_surfaces: "same_surfaces st (select_event r st)"
  by (simp add: select_event_def select_fold_surfaces)

lemma startARSession_surfaces: "same_surfaces st (startARSession hs nav req bind st)"
  by (simp add: same_surfaces_def startARSession_def catch_start_def emit_def scene_add_def
      Let_def split: settled.splits option.splits)

lemma session_end_event_surfaces: "same_surfaces st (session_end_event s st)"
  by (simp add: same_surfaces_def session_end_event_def funpow_onSessionEnd Let_def)

lemma animation_frame_surfaces: "same_surfaces st (animation_frame r st)"
  by (simp add: same_surfaces_def animation_frame_def animationCallback_def emit_def Let_def
      split: option.splits)

lemma handleResize_surfaces: "same_surfaces st (handleResize w h st)"
  by (simp add: same_surfaces_def handleResize_def split: option.splits)

lemma supportSettled_surfaces: "same_surfaces st (supportSettled q st)"
  by (simp add: same_surfaces_def supportSettled_def split: settled.splits)

lemma controller_moved_surfaces: "same_surfaces st (controller_moved r v st)"
  by (simp add: same_surfaces_def controller_moved_def)

lemma run_safe:
  assumes "loop_safe st" and "containerRef st"
  shows "loop_safe (step p (SceneEffectRun w h dpr) st) \<and>
         containerRef (step p (SceneEffectRun w h dpr) st)"
  using assms
  by (simp add: loop_safe_def step_def sceneEffect_def initializeScene_def
      startAnimationLoop_def set_animation_loop_def emit_def new_renderer_def Let_def)

lemma cleanup_safe:
  assumes "loop_safe st"
  shows "loop_safe (step p SceneEffectCleanup st) \<and>
         containerRef (step p SceneEffectCleanup st) = containerRef st"
proof (cases "pending_cleanup st")
  case None
  with assms show ?thesis by (simp add: step_def)
next
  case (Some c)
  show ?thesis
  proof (cases c)
    case None
    with Some assms show ?thesis
      by (simp add: loop_safe_def step_def sceneEffect_cleanup_def set_animation_loop_def
          emit_def Let_def split: option.splits)
  next
    case (Some g)
    with \<open>pending_cleanup st = Some c\<close> assms
    have "rendererRef st = Some g" and "g \<in> set (container_children st)"
      by (simp_all add: loop_safe_def)
    with Some \<open>pending_cleanup st = Some c\<close> assms show ?thesis
      by (simp add: loop_safe_def step_def sceneEffect_cleanup_def initializeScene_cleanup_def
          set_animation_loop_def emit_def Let_def split: option.splits)
  qed
qed

lemma step_safe:
  assumes "loop_safe st" and "runs_attached (containerRef st) (ev # evs)"
  shows "loop_safe (step p ev st) \<and> runs_attached (containerRef (step p ev st)) evs"
proof (cases ev)
  case (SupportSettled q)
  with assms show ?thesis
    using same_surfaces_safe [OF supportSettled_surfaces [of st q], of evs]
    by (simp add: step_def)
next
  case (StartClicked hs nav req bind)
  with assms show ?thesis
    using same_surfaces_safe [OF startARSession_surfaces [of st hs nav req bind], of evs]
    by (simp add: step_def)
next
  case (ControllerMoved r v)
  with assms show ?thesis
    using same_surfaces_safe [OF controller_moved_surfaces [of st r v], of evs]
    by (simp add: step_def)
next
  case (SelectFired r)
  with assms show ?thesis
    using same_surfaces_safe [OF select_event_surfaces [of st r], of evs]
    by (simp add: step_def)
next
  case (SessionEnded s)
  with assms show ?thesis
    using same_surfaces_safe [OF session_end_event_surfaces [of st s], of evs]
    by (simp add: step_def)
next
  case (AnimationFrame r)
  with assms show ?thesis
    using same_surfaces_safe [OF animation_frame_surfaces [of st r], of evs]
    by (simp add: step_def)
next
  case (WindowResized w h)
  with assms show ?thesis
    using same_surfaces_safe [OF handleResize_surfaces [of st w h], of evs]
    by (simp add: step_def)
next
  case (SceneEffectRun w h dpr)
  with assms have c: "containerRef st" and r: "runs_attached True evs" by auto
  with SceneEffectRun assms(1) show ?thesis
    using run_safe [of st p w h dpr] by simp
next
  case SceneEffectCleanup
  with assms show ?thesis
    using cleanup_safe [of st p] by simp
next
  case (ContainerRefSet b)
  with assms show ?thesis
    by (simp add: step_def loop_safe_def)
qed

lemma events_safe:
  "loop_safe st \<Longrightarrow> runs_attached (containerRef st) evs \<Longrightarrow>
     loop_safe (foldl (\<lambda>st ev. step p ev st) st evs)"
proof (induction evs arbitrary: st)
  case Nil
  then show ?case by simp
next
  case (Cons ev evs)
  then show ?case using step_safe [of st ev evs p] by simp
qed

lemma mount_safe: "loop_safe (mount p nav w h dpr) \<and> containerRef (mount p nav w h dpr)"
  by (cases nav) (simp_all add: loop_safe_def mount_def step_def sceneEffect_def
      initializeScene_def startAnimationLoop_def set_animation_loop_def emit_def
      new_renderer_def Let_def supportEffect_def initial_state_def)

lemma disposed_frame_idle:
  "loop_safe st \<Longrightarrow> r_disposed (renderers st r) \<Longrightarrow> animation_frame r st = st"
  by (simp add: loop_safe_def animation_frame_def)

lemma cleanup_releases_first:
  assumes "rendererRef st = Some g" and "containerRef st \<longrightarrow> g \<in> set (container_children st)"
  shows "\<exists>st'. sceneEffect_cleanup (Some g) st = Inr st' \<and>
     trace st' = trace st @
       [DisposeRenderer g, DisposeGeometry g, DisposeMaterial g] @
       (if containerRef st then [RemoveCanvas g] else []) @
       [RemoveResizeListener, SetAnimationLoop g False] @
       (case xr_session (renderers st g) of None \<Rightarrow> [] | Some s \<Rightarrow> [EndSession s]) \<and>
     r_disposed (renderers st' g) \<and>
     r_animation_loop (renderers st' g) = None \<and>
     animation_frame g st' = st'"
  using assms
  by (auto simp: sceneEffect_cleanup_def initializeScene_cleanup_def
        set_animation_loop_def emit_def animation_frame_def Let_def split: option.splits)

lemma v_step_no_loop: "\<not> v_animation_loop st \<Longrightarrow> \<not> v_animation_loop (v_step ev st)"
  by (cases ev)
    (simp_all add: v_step_def v_startARSession_def v_request_def v_catch_start_def v_emit_def
      v_controller_moved_def v_select_event_def onSelect_def v_scene_add_def
      v_session_end_event_def funpow_v_onSessionEnd v_animation_frame_def v_handleResize_def
      v_cleanup_def Let_def split: settled.splits option.splits)

lemma v_events_no_loop:
  "\<not> v_animation_loop st \<Longrightarrow> \<not> v_animation_loop (foldl (\<lambda>s e. v_step e s) st evs)"
  by (induction evs arbitrary: st) (simp_all add: v_step_no_loop)

text \<open>
  Claim C2, as the claim states it, fails: the order is the other way round. In the
  cleanup of \<^verbatim>\<open>ARViewer.tsx\<close> with session 7 running, the renderer is disposed and its canvas
  removed first; the per-frame callback is deregistered and the session asked to end after
  that. The second revision removes the canvas before it deregisters the callback, and
  disposes nothing.
\<close>

theorem teardown_order_counterexample:
  "trace (step default_props SceneEffectCleanup running_session) =
     trace running_session @
       [DisposeRenderer 0, DisposeGeometry 0, DisposeMaterial 0, RemoveCanvas 0,
        RemoveResizeListener, SetAnimationLoop 0 False, EndSession 7] \<and>
   precedes (DisposeRenderer 0) (SetAnimationLoop 0 False)
        (trace (step default_props SceneEffectCleanup running_session)) \<and>
   \<not> precedes (SetAnimationLoop 0 False) (DisposeRenderer 0)
        (trace (step default_props SceneEffectCleanup running_session)) \<and>
   \<not> precedes (EndSession 7) (DisposeRenderer 0)
        (trace (step default_props SceneEffectCleanup running_session)) \<and>
   v_trace (v_cleanup v_running_session) =
     v_trace v_running_session @
       [RemoveResizeListener, RemoveCanvas 0, SetAnimationLoop 0 False, EndSession 7] \<and>
   \<not> precedes (SetAnimationLoop 0 False) (RemoveCanvas 0) (v_trace (v_cleanup v_running_session))"
proof -
  have t: "trace (step default_props SceneEffectCleanup running_session) =
     trace running_session @
       [DisposeRenderer 0, DisposeGeometry 0, DisposeMaterial 0, RemoveCanvas 0,
        RemoveResizeListener, SetAnimationLoop 0 False, EndSession 7]"
    using running_session_refs running_session_renderer
    by (simp add: step_def sceneEffect_cleanup_def initializeScene_cleanup_def
        set_animation_loop_def emit_def Let_def)
  have v: "v_trace (v_cleanup v_running_session) =
     v_trace v_running_session @
       [RemoveResizeListener, RemoveCanvas 0, SetAnimationLoop 0 False, EndSession 7]"
    by (simp add: v_running_session_eq v_cleanup_def v_emit_def v_initial_state_def Let_def)
  show ?thesis
    unfolding t v running_session_trace
    by (simp add: precedes_def v_running_session_eq v_initial_state_def)
qed

text \<open>
  Claim C2, amended. On teardown the cleanup of \<^verbatim>\<open>ARViewer.tsx\<close> releases the drawing
  surface first (it disposes the renderer, its geometry and material, and removes the
  canvas), then deregisters the per-frame callback and asks the session of the renderer
  to end, all in the one call; when it returns the renderer has no callback and a frame
  issues no draw call. Through every run of the component in which the scene effect never
  finds the container ref null, a frame of a disposed renderer does nothing. The second
  revision removes the canvas, deregisters the callback and asks the session of its
  renderer to end; after that no event registers a callback again, and a frame does
  nothing.
\<close>

theorem teardown_releases_then_deregisters:
  "(rendererRef st = Some g \<and> (containerRef st \<longrightarrow> g \<in> set (container_children st)) \<longrightarrow>
      (\<exists>st'. sceneEffect_cleanup (Some g) st = Inr st' \<and>
         trace st' = trace st @
           [DisposeRenderer g, DisposeGeometry g, DisposeMaterial g] @
           (if containerRef st then [RemoveCanvas g] else []) @
           [RemoveResizeListener, SetAnimationLoop g False] @
           (case xr_session (renderers st g) of None \<Rightarrow> [] | Some s \<Rightarrow> [EndSession s]) \<and>
         r_disposed (renderers st' g) \<and>
         r_animation_loop (renderers st' g) = None \<and>
         animation_frame g st' = st')) \<and>
   (runs_attached True evs \<longrightarrow>
      (\<forall>r. r_disposed (renderers (ARViewer p nav w h dpr evs) r) \<longrightarrow>
           animation_frame r (ARViewer p nav w h dpr evs) = ARViewer p nav w h dpr evs)) \<and>
   v_trace (v_cleanup vs) =
     v_trace vs @ [RemoveResizeListener] @
       (if v_containerRef vs \<and> v_canvas_attached vs then [RemoveCanvas 0] else []) @
       [SetAnimationLoop 0 False] @
       (case v_xr_session vs of None \<Rightarrow> [] | Some s \<Rightarrow> [EndSession s]) \<and>
   v_animation_frame (v_cleanup vs) = v_cleanup vs \<and>
   v_animation_frame (foldl (\<lambda>s e. v_step e s) (v_cleanup vs) vevs) =
     foldl (\<lambda>s e. v_step e s) (v_cleanup vs) vevs"
proof -
  have a: "runs_attached True evs \<longrightarrow>
      (\<forall>r. r_disposed (renderers (ARViewer p nav w h dpr evs) r) \<longrightarrow>
           animation_frame r (ARViewer p nav w h dpr evs) = ARViewer p nav w h dpr evs)"
    using mount_safe [of p nav w h dpr]
      events_safe [of "mount p nav w h dpr" evs p]
    by (auto simp: ARViewer_def intro: disposed_frame_idle)
  have n: "\<not> v_animation_loop (v_cleanup vs)"
    by (simp add: v_cleanup_def v_emit_def Let_def split: option.splits)
  have b: "v_trace (v_cleanup vs) =
     v_trace vs @ [RemoveResizeListener] @
       (if v_containerRef vs \<and> v_canvas_attached vs then [RemoveCanvas 0] else []) @
       [SetAnimationLoop 0 False] @
       (case v_xr_session vs of None \<Rightarrow> [] | Some s \<Rightarrow> [EndSession s])"
    by (simp add: v_cleanup_def v_emit_def Let_def split: option.splits)
  have c: "v_animation_frame (v_cleanup vs) = v_cleanup vs"
    using n by (simp add: v_animation_frame_def)
  have d: "v_animation_frame (foldl (\<lambda>s e. v_step e s) (v_cleanup vs) vevs) =
     foldl (\<lambda>s e. v_step e s) (v_cleanup vs) vevs"
    using v_events_no_loop [OF n, of vevs] by (simp add: v_animation_frame_def)
  show ?thesis
    using cleanup_releases_first [of st g] a b c d by blast
qed


theorem teardown_releases_then_deregisters_witness:
  "rendererRef running_session = Some 0 \<and> 0 \<in> set (container_children running_session) \<and>
   (\<exists>st'. sceneEffect_cleanup (Some 0) running_session = Inr st' \<and>
      r_disposed (renderers st' 0) \<and> animation_frame 0 st' = st') \<and>
   runs_attached True
     [StartClicked (0, False) XrPresent (Resolved 7) (Resolved ()), SceneEffectCleanup] \<and>
   r_disposed (renderers
     (ARViewer default_props XrPresent 800 600 1
       [StartClicked (0, False) XrPresent (Resolved 7) (Resolved ()), SceneEffectCleanup]) 0) \<and>
   animation_frame 0
     (ARViewer default_props XrPresent 800 600 1
       [StartClicked (0, False) XrPresent (Resolved 7) (Resolved ()), SceneEffectCleanup]) =
     ARViewer default_props XrPresent 800 600 1
       [StartClicked (0, False) XrPresent (Resolved 7) (Resolved ()), SceneEffectCleanup]"
proof -
  let ?evs = "[StartClicked (0, False) XrPresent (Resolved 7) (Resolved ()), SceneEffectCleanup]"
  have h: "rendererRef running_session = Some 0 \<and> 0 \<in> set (container_children running_session)"
    using running_session_refs by simp
  have e: "ARViewer default_props XrPresent 800 600 1 ?evs =
      step default_props SceneEffectCleanup running_session"
    by (simp add: ARViewer_def running_session_def step_def)
  have d: "r_disposed (renderers (ARViewer default_props XrPresent 800 600 1 ?evs) 0)"
    unfolding e using running_session_refs
    by (simp add: step_def sceneEffect_cleanup_def initializeScene_cleanup_def
        set_animation_loop_def emit_def Let_def split: option.splits)
  have r: "runs_attached True ?evs" by simp
  show ?thesis
    using h d r
      teardown_releases_then_deregisters
        [of running_session 0 ?evs default_props XrPresent 800 600 1 v_running_session "[]"]
    by blast
qed

subsection \<open>Placement on select events\<close>

lemma count_list_readded: "count_list (filter (\<lambda>x. x \<noteq> a) xs @ [a]) a = 1"
  by (induction xs) simp_all

lemma v_selects_placed:
  "v_objectPlaced st \<Longrightarrow>
     v_selects ws st = st\<lparr>v_controller_world := last (v_controller_world st # ws)\<rparr>"
proof (induction ws arbitrary: st)
  case Nil
  then show ?case by (simp add: v_selects_def)
next
  case (Cons w ws)
  have "v_select_event (v_controller_moved w st) = st\<lparr>v_controller_world := w\<rparr>"
    using Cons.prems by (simp add: v_select_event_def v_controller_moved_def onSelect_def)
  then have "v_selects (w # ws) st = v_selects ws (st\<lparr>v_controller_world := w\<rparr>)"
    by (simp add: v_selects_def)
  also have "\<dots> = st\<lparr>v_controller_world := w\<rparr>\<lparr>v_controller_world := last (w # ws)\<rparr>"
    using Cons.IH [of "st\<lparr>v_controller_world := w\<rparr>"] Cons.prems by simp
  finally show ?case by simp
qed

lemma v_first_select:
  "v_select_listener st \<Longrightarrow> v_controller st \<Longrightarrow> \<not> v_objectPlaced st \<Longrightarrow>
     v_select_event (v_controller_moved w st) =
       st\<lparr>v_controller_world := w,
          v_scene := filter (\<lambda>x. x \<noteq> MeshNode 0) (v_scene st) @ [MeshNode 0],
          v_cube_position := w, v_objectPlaced := True,
          v_trace := v_trace st @ [SceneAdd 0 (MeshNode 0), SetPosition 0 w]\<rparr>"
  by (simp add: v_select_event_def v_controller_moved_def onSelect_def v_scene_add_def Let_def)

lemma v_selects_once:
  assumes "v_select_listener st" and "v_controller st" and "\<not> v_objectPlaced st"
  shows "v_selects (w # ws) st =
       st\<lparr>v_controller_world := last (w # ws),
          v_scene := filter (\<lambda>x. x \<noteq> MeshNode 0) (v_scene st) @ [MeshNode 0],
          v_cube_position := w, v_objectPlaced := True,
          v_trace := v_trace st @ [SceneAdd 0 (MeshNode 0), SetPosition 0 w]\<rparr>"
proof -
  have "v_selects (w # ws) st = v_selects ws (v_select_event (v_controller_moved w st))"
    by (simp add: v_selects_def)
  then show ?thesis
    using assms by (simp add: v_first_select v_selects_placed)
qed

lemma s_select_hit:
  "referenceSpace ev \<Longrightarrow> hitTestSource ev = Resolved True \<Longrightarrow>
   frame_results ev = Some (Some v # rest) \<Longrightarrow>
     s_select_listener ev ss =
       ss\<lparr>s_model_position := v,
          s_scene := filter (\<lambda>x. x \<noteq> MeshNode 0) (s_scene ss) @ [MeshNode 0],
          s_trace := s_trace ss @ [SetPosition 0 v, SceneAdd 0 (MeshNode 0)]\<rparr>"
  by (simp add: s_select_listener_def)

lemma s_select_changes:
  "s_model_position (s_select_listener ev ss) \<noteq> s_model_position ss \<or>
   s_scene (s_select_listener ev ss) \<noteq> s_scene ss \<Longrightarrow>
     \<exists>v rest. referenceSpace ev \<and> hitTestSource ev = Resolved True \<and>
       frame_results ev = Some (Some v # rest)"
  by (auto simp: s_select_listener_def split: if_splits settled.splits bool.splits
      option.splits list.splits)

lemma handleSelect_places:
  "objectRef st = Some m \<Longrightarrow> controllerRef st = Some r \<Longrightarrow> sceneRef st = Some s \<Longrightarrow>
     handleSelect False st =
       st\<lparr>scenes := (\<lambda>i. filter (\<lambda>x. x \<noteq> MeshNode m) (scenes st i) @
                         (if i = s then [MeshNode m] else [])),
          meshes := (meshes st)(m := (meshes st m)
                      \<lparr>mesh_position := controller_matrix_world (renderers st r)\<rparr>),
          isObjectPlaced := True,
          trace := trace st @
            [SceneAdd s (MeshNode m), SetPosition m (controller_matrix_world (renderers st r))]\<rparr>"
  by (simp add: handleSelect_def scene_add_def set_position_def Let_def)

lemma handleSelect_idle:
  "placed \<or> objectRef st = None \<or> controllerRef st = None \<or> sceneRef st = None \<Longrightarrow>
     handleSelect placed st = st"
  by (auto simp: handleSelect_def split: option.splits)

text \<open>
  The listener that \<^verbatim>\<open>startARSession\<close> of \<^verbatim>\<open>ARViewer.tsx\<close> registered keeps the
  \<^verbatim>\<open>isObjectPlaced = false\<close> it captured: a second select event of the session adds the
  object and assigns its position again.
\<close>

lemma stale_handleSelect_places_again:
  "isObjectPlaced placed_session \<and>
   mesh_position (meshes placed_session 0) = (1, 2, 3) \<and>
   mesh_position (meshes (select_event 0 (controller_moved 0 (4, 5, 6) placed_session)) 0) =
     (4, 5, 6) \<and>
   trace (select_event 0 (controller_moved 0 (4, 5, 6) placed_session)) =
     trace placed_session @ [SceneAdd 0 (MeshNode 0), SetPosition 0 (4, 5, 6)]"
  using running_session_refs running_session_renderer
  by (simp add: placed_session_eq select_event_def controller_moved_def handleSelect_def
      scene_add_def set_position_def Let_def)

text \<open>
  Claim C1, as the claim states it, fails in \<^verbatim>\<open>ARShoeApp\<close>: two select events of a
  session, each with a hit-test pose. The second assigns the position of the model again
  and calls \<^verbatim>\<open>scene.add\<close> again; it is no no-op.
\<close>

theorem second_select_moves_counterexample:
  "s_model_position (s_select_listener (hit_at (1, 0, 0)) (s_effect_scene s_initial_state)) =
     (1, 0, 0) \<and>
   s_model_position
     (s_select_listener (hit_at (2, 0, 0))
       (s_select_listener (hit_at (1, 0, 0)) (s_effect_scene s_initial_state))) = (2, 0, 0) \<and>
   s_trace
     (s_select_listener (hit_at (2, 0, 0))
       (s_select_listener (hit_at (1, 0, 0)) (s_effect_scene s_initial_state))) =
     [SceneAdd 0 AmbientLight, SceneAdd 0 DirectionalLight,
      SetPosition 0 (1, 0, 0), SceneAdd 0 (MeshNode 0),
      SetPosition 0 (2, 0, 0), SceneAdd 0 (MeshNode 0)] \<and>
   s_select_listener (hit_at (2, 0, 0))
       (s_select_listener (hit_at (1, 0, 0)) (s_effect_scene s_initial_state)) \<noteq>
     s_select_listener (hit_at (1, 0, 0)) (s_effect_scene s_initial_state)"
proof -
  have "s_model_position
     (s_select_listener (hit_at (2, 0, 0))
       (s_select_listener (hit_at (1, 0, 0)) (s_effect_scene s_initial_state))) \<noteq>
     s_model_position (s_select_listener (hit_at (1, 0, 0)) (s_effect_scene s_initial_state))"
    by (simp add: s_select_listener_def hit_at_def s_effect_scene_def s_initial_state_def)
  then have "s_select_listener (hit_at (2, 0, 0))
       (s_select_listener (hit_at (1, 0, 0)) (s_effect_scene s_initial_state)) \<noteq>
     s_select_listener (hit_at (1, 0, 0)) (s_effect_scene s_initial_state)"
    by metis
  then show ?thesis
    by (simp add: s_select_listener_def hit_at_def s_effect_scene_def s_initial_state_def)
qed

text \<open>
  Claim C1, amended. In the second revision, for every sequence of one or more select
  events that reach \<^verbatim>\<open>onSelect\<close> with the controller assigned and the cube not yet placed,
  the cube is added to the scene once and its position is assigned once, to the place of
  the controller at the first event; every later event changes neither the scene nor the
  position nor the trace. In \<^verbatim>\<open>ARShoeApp\<close> every select event whose first hit-test result
  has a pose assigns that pose to the model and adds the model, which stays a single child
  of the scene; an event that changes position or scene is such an event. In
  \<^verbatim>\<open>ARViewer.tsx\<close> a call of \<^verbatim>\<open>handleSelect\<close> that captured \<^verbatim>\<open>isObjectPlaced = false\<close> and
  finds object, controller and scene places the object at the controller, and a call that
  captured true or lacks one of the three does nothing.
\<close>

theorem select_places_once_or_moves:
  "(v_select_listener vs \<and> v_controller vs \<and> \<not> v_objectPlaced vs \<longrightarrow>
      v_selects (w # ws) vs =
        vs\<lparr>v_controller_world := last (w # ws),
           v_scene := filter (\<lambda>x. x \<noteq> MeshNode 0) (v_scene vs) @ [MeshNode 0],
           v_cube_position := w, v_objectPlaced := True,
           v_trace := v_trace vs @ [SceneAdd 0 (MeshNode 0), SetPosition 0 w]\<rparr> \<and>
      count_list (v_scene (v_selects (w # ws) vs)) (MeshNode 0) = 1) \<and>
   (referenceSpace ev \<and> hitTestSource ev = Resolved True \<and>
    frame_results ev = Some (Some v # rest) \<longrightarrow>
      s_select_listener ev ss =
        ss\<lparr>s_model_position := v,
           s_scene := filter (\<lambda>x. x \<noteq> MeshNode 0) (s_scene ss) @ [MeshNode 0],
           s_trace := s_trace ss @ [SetPosition 0 v, SceneAdd 0 (MeshNode 0)]\<rparr> \<and>
      count_list (s_scene (s_select_listener ev ss)) (MeshNode 0) = 1) \<and>
   (s_model_position (s_select_listener ev ss) \<noteq> s_model_position ss \<or>
    s_scene (s_select_listener ev ss) \<noteq> s_scene ss \<longrightarrow>
      (\<exists>v rest. referenceSpace ev \<and> hitTestSource ev = Resolved True \<and>
         frame_results ev = Some (Some v # rest))) \<and>
   (objectRef st = Some m \<and> controllerRef st = Some r \<and> sceneRef st = Some s \<longrightarrow>
      handleSelect False st =
        st\<lparr>scenes := (\<lambda>i. filter (\<lambda>x. x \<noteq> MeshNode m) (scenes st i) @
                          (if i = s then [MeshNode m] else [])),
           meshes := (meshes st)(m := (meshes st m)
                       \<lparr>mesh_position := controller_matrix_world (renderers st r)\<rparr>),
           isObjectPlaced := True,
           trace := trace st @
             [SceneAdd s (MeshNode m),
              SetPosition m (controller_matrix_world (renderers st r))]\<rparr>) \<and>
   (placed \<or> objectRef st = None \<or> controllerRef st = None \<or> sceneRef st = None \<longrightarrow>
      handleSelect placed st = st)"
proof -
  have a: "v_select_listener vs \<and> v_controller vs \<and> \<not> v_objectPlaced vs \<longrightarrow>
      v_selects (w # ws) vs =
        vs\<lparr>v_controller_world := last (w # ws),
           v_scene := filter (\<lambda>x. x \<noteq> MeshNode 0) (v_scene vs) @ [MeshNode 0],
           v_cube_position := w, v_objectPlaced := True,
           v_trace := v_trace vs @ [SceneAdd 0 (MeshNode 0), SetPosition 0 w]\<rparr> \<and>
      count_list (v_scene (v_selects (w # ws) vs)) (MeshNode 0) = 1"
    using v_selects_once [of vs w ws] count_list_readded [of "MeshNode 0" "v_scene vs"]
    by simp
  have b: "referenceSpace ev \<and> hitTestSource ev = Resolved True \<and>
    frame_results ev = Some (Some v # rest) \<longrightarrow>
      s_select_listener ev ss =
        ss\<lparr>s_model_position := v,
           s_scene := filter (\<lambda>x. x \<noteq> MeshNode 0) (s_scene ss) @ [MeshNode 0],
           s_trace := s_trace ss @ [SetPosition 0 v, SceneAdd 0 (MeshNode 0)]\<rparr> \<and>
      count_list (s_scene (s_select_listener ev ss)) (MeshNode 0) = 1"
    using s_select_hit [of ev v rest ss] count_list_readded [of "MeshNode 0" "s_scene ss"]
    by simp
  show ?thesis
    using a b s_select_changes [of ev ss] handleSelect_places [of st m r s]
      handleSelect_idle [of placed st]
    by blast
qed

theorem select_places_once_or_moves_witness:
  "v_select_listener v_running_session \<and> v_controller v_running_session \<and>
   \<not> v_objectPlaced v_running_session \<and>
   v_cube_position (v_selects [(1, 2, 3), (4, 5, 6)] v_running_session) = (1, 2, 3) \<and>
   v_trace (v_selects [(1, 2, 3), (4, 5, 6)] v_running_session) =
     v_trace v_running_session @ [SceneAdd 0 (MeshNode 0), SetPosition 0 (1, 2, 3)] \<and>
   referenceSpace (hit_at (1, 0, 0)) \<and> hitTestSource (hit_at (1, 0, 0)) = Resolved True \<and>
   frame_results (hit_at (1, 0, 0)) = Some [Some (1, 0, 0)] \<and>
   s_model_position (s_select_listener (hit_at (1, 0, 0)) s_initial_state) = (1, 0, 0) \<and>
   objectRef running_session = Some 0 \<and> controllerRef running_session = Some 0 \<and>
   sceneRef running_session = Some 0 \<and>
   isObjectPlaced (handleSelect False running_session) \<and>
   handleSelect True running_session = running_session"
proof -
  have h: "v_select_listener v_running_session \<and> v_controller v_running_session \<and>
      \<not> v_objectPlaced v_running_session \<and>
      referenceSpace (hit_at (1, 0, 0)) \<and> hitTestSource (hit_at (1, 0, 0)) = Resolved True \<and>
      frame_results (hit_at (1, 0, 0)) = Some [Some (1, 0, 0)] \<and>
      objectRef running_session = Some 0 \<and> controllerRef running_session = Some 0 \<and>
      sceneRef running_session = Some 0"
    using running_session_refs
    by (simp add: v_running_session_eq v_initial_state_def hit_at_def)
  show ?thesis
    using h select_places_once_or_moves
      [of v_running_session "(1, 2, 3)" "[(4, 5, 6)]" "hit_at (1, 0, 0)" "(1, 0, 0)" "[]"
          s_initial_state running_session 0 0 0 True]
    by simp
qed

end
